theory Spec2Isabelle
  imports Complex_Main
begin

section \<open>Kinematics of the 6-joint manipulator (Assignment2/Danko\_Danila\_HA2.py)\<close>

text \<open>
  The program computes with numpy floats. The embedding reads every float as a
  \<^typ>\<open>real\<close>: \<open>sin\<close>, \<open>cos\<close> and \<open>pi\<close> are the exact functions, rounding is not
  modelled, and a division by zero (numpy yields \<open>inf\<close> or \<open>nan\<close> there, HOL yields \<open>0\<close>)
  is kept out of every statement that depends on its value.
  A one-dimensional array is a list of reals, a two-dimensional array is the list of its
  rows (numpy arrays are rectangular: every row has the length of the first).
  A sympy expression in one symbol is modelled by the function it denotes, so that
  \<open>subs\<close> and \<open>lambdify\<close> are function application.
  Outside the embedding: the symbolic chain \<open>get_fk_symb\<close>, the determinant test
  \<open>check_singular\<close>, the integrator \<open>odeint\<close> that \<open>solve_motion\<close> hands its vector field
  to, and the plot.
\<close>

subsection \<open>Errors and arrays\<close>

datatype error = IndexError | ValueError | TypeError

type_synonym vec = "real list"
type_synonym mat = "real list list"

definition ebind :: "error + 'a \<Rightarrow> ('a \<Rightarrow> error + 'b) \<Rightarrow> error + 'b" where
  "ebind m f = (case m of Inl e \<Rightarrow> Inl e | Inr x \<Rightarrow> f x)"

definition nrows :: "'a list list \<Rightarrow> nat" where
  "nrows A = length A"

definition ncols :: "'a list list \<Rightarrow> nat" where
  "ncols A = (case A of [] \<Rightarrow> 0 | r # _ \<Rightarrow> length r)"

text \<open>\<open>W[i,j]\<close> with constant non-negative indices: IndexError out of bounds.\<close>

definition at2 :: "'a list list \<Rightarrow> nat \<Rightarrow> nat \<Rightarrow> error + 'a" where
  "at2 W i j = (if i < nrows W \<and> j < ncols W then Inr (W ! i ! j) else Inl IndexError)"

text \<open>\<open>M[:3,j]\<close>: the slice of the rows never fails, the column index does.\<close>

definition slice3_col :: "mat \<Rightarrow> nat \<Rightarrow> error + vec" where
  "slice3_col M j = (if j < ncols M then Inr (map (\<lambda>r. r ! j) (take 3 M)) else Inl IndexError)"

definition column :: "mat \<Rightarrow> nat \<Rightarrow> vec" where
  "column B j = map (\<lambda>r. r ! j) B"

definition dotp :: "vec \<Rightarrow> vec \<Rightarrow> real" where
  "dotp xs ys = sum_list (map2 (*) xs ys)"

text \<open>The matrix product (sympy's \<open>*\<close>, numpy's \<open>dot\<close>) of arrays whose shapes fit; in
  this program both operands are always 4 by 4.\<close>

definition mat_mul :: "mat \<Rightarrow> mat \<Rightarrow> mat" where
  "mat_mul A B = map (\<lambda>r. map (\<lambda>j. dotp r (column B j)) [0..<ncols B]) A"

definition eye :: "nat \<Rightarrow> mat" where
  "eye m = map (\<lambda>i. map (\<lambda>j. if i = j then 1 else 0) [0..<m]) [0..<m]"

text \<open>Elementwise subtraction of vectors with numpy's broadcasting of a length-1 operand.\<close>

definition np_sub :: "vec \<Rightarrow> vec \<Rightarrow> error + vec" where
  "np_sub a b =
     (if length a = length b then Inr (map2 (-) a b)
      else if length a = 1 then Inr (map (\<lambda>y. hd a - y) b)
      else if length b = 1 then Inr (map (\<lambda>x. x - hd b) a)
      else Inl ValueError)"

text \<open>\<open>np.cross\<close> of two 3-vectors. (numpy also takes 2-vectors; they arise only from
  frames with fewer than three rows, which are reported as ValueError here.)\<close>

definition cross :: "vec \<Rightarrow> vec \<Rightarrow> error + vec" where
  "cross a b =
     (if length a = 3 \<and> length b = 3
      then Inr [a ! 1 * b ! 2 - a ! 2 * b ! 1,
                a ! 2 * b ! 0 - a ! 0 * b ! 2,
                a ! 0 * b ! 1 - a ! 1 * b ! 0]
      else Inl ValueError)"

text \<open>\<open>J.dot(v)\<close> for a matrix and a vector.\<close>

definition mat_vec :: "mat \<Rightarrow> vec \<Rightarrow> error + vec" where
  "mat_vec A v = (if ncols A = length v then Inr (map (\<lambda>r. dotp r v) A) else Inl ValueError)"

text \<open>\<open>np.arctan2(y, x)\<close> on reals (signed zeros do not exist here: \<open>arctan2 0 0 = 0\<close>).\<close>

definition arctan2 :: "real \<Rightarrow> real \<Rightarrow> real" where
  "arctan2 y x =
     (if 0 < x then arctan (y / x)
      else if x < 0 then (if 0 \<le> y then arctan (y / x) + pi else arctan (y / x) - pi)
      else if 0 < y then pi / 2
      else if y < 0 then - (pi / 2)
      else 0)"

subsection \<open>Constants\<close>

definition dim_h :: nat where "dim_h = 4"
definition n_joints :: nat where "n_joints = 6"
definition link_lengths :: vec where "link_lengths = [1, 1, 1, 1, 1, 1]"
definition input_qs :: vec where "input_qs = [0.1, 0.1, 0.1, 0.1, 0.1, 0.1]"
definition input_initial :: vec where "input_initial = [0, 0, 0, 0, 0, 0]"

definition l1 :: real where "l1 = link_lengths ! 0"
definition l2 :: real where "l2 = link_lengths ! 1"
definition l3 :: real where "l3 = link_lengths ! 2"
definition l4 :: real where "l4 = link_lengths ! 3"
definition l5 :: real where "l5 = link_lengths ! 4"
definition l6 :: real where "l6 = link_lengths ! 5"

subsection \<open>The symbolic transforms\<close>

datatype axis = AxisX | AxisY | AxisZ

text \<open>\<open>t = Identity(4); t[:3,:3] = rot33\<close>\<close>

definition set_block33 :: "mat \<Rightarrow> mat \<Rightarrow> mat" where
  "set_block33 t r = map2 (\<lambda>rr tr. rr @ drop 3 tr) r (take 3 t) @ drop 3 t"

text \<open>\<open>t = Identity(4); t[:3,3] = trans31\<close>\<close>

definition set_col3 :: "mat \<Rightarrow> vec \<Rightarrow> mat" where
  "set_col3 t v = map2 (\<lambda>x tr. tr[3 := x]) v (take 3 t) @ drop 3 t"

fun rot33 :: "axis \<Rightarrow> real \<Rightarrow> mat" where
  "rot33 AxisZ q = [[cos q, - sin q, 0], [sin q, cos q, 0], [0, 0, 1]]"
| "rot33 AxisY q = [[cos q, 0, sin q], [0, 1, 0], [- sin q, 0, cos q]]"
| "rot33 AxisX q = [[1, 0, 0], [0, cos q, - sin q], [0, sin q, cos q]]"

definition rot_symb :: "axis \<Rightarrow> real \<Rightarrow> mat" where
  "rot_symb a q = set_block33 (eye 4) (rot33 a q)"

fun trans31 :: "axis \<Rightarrow> real \<Rightarrow> vec" where
  "trans31 AxisZ d = [0, 0, d]"
| "trans31 AxisY d = [0, d, 0]"
| "trans31 AxisX d = [d, 0, 0]"

definition trans_symb :: "axis \<Rightarrow> real \<Rightarrow> mat" where
  "trans_symb a d = set_col3 (eye 4) (trans31 a d)"

datatype transformation = Rot axis real | Trans axis real

fun get_T :: "transformation \<Rightarrow> mat" where
  "get_T (Rot a angle) = rot_symb a angle"
| "get_T (Trans a distance) = trans_symb a distance"

text \<open>The loop \<open>t[i] = t[i-1] * t[i]\<close> leaves in \<open>t[-1]\<close> the product of the list, taken
  from the left; \<open>simplify\<close> does not change what the expression denotes. (Every call
  in the program passes four transformations; \<open>t[-1]\<close> of an empty list would raise.)\<close>

fun compose_from :: "mat \<Rightarrow> mat list \<Rightarrow> mat" where
  "compose_from acc [] = acc"
| "compose_from acc (m # ms) = compose_from (mat_mul acc m) ms"

definition compose_T_symb :: "transformation list \<Rightarrow> mat" where
  "compose_T_symb args = (case map get_T args of m # ms \<Rightarrow> compose_from m ms | [] \<Rightarrow> [])"

definition T12 :: "real \<Rightarrow> mat" where
  "T12 q1 = compose_T_symb [Rot AxisZ q1, Trans AxisZ l1, Trans AxisX 0, Rot AxisX (pi / 2)]"

definition T23 :: "real \<Rightarrow> mat" where
  "T23 q2 = compose_T_symb [Rot AxisZ q2, Trans AxisZ 0, Trans AxisX l2, Rot AxisX 0]"

definition T34 :: "real \<Rightarrow> mat" where
  "T34 q3 = compose_T_symb [Rot AxisZ q3, Trans AxisZ 0, Trans AxisX l3, Rot AxisX (- pi / 2)]"

definition T45 :: "real \<Rightarrow> mat" where
  "T45 q4 = compose_T_symb [Rot AxisZ q4, Trans AxisZ l4, Trans AxisX 0, Rot AxisX (- pi / 2)]"

definition T56 :: "real \<Rightarrow> mat" where
  "T56 q5 = compose_T_symb [Rot AxisZ (q5 - pi / 2), Trans AxisZ 0, Trans AxisX 0, Rot AxisX (- pi / 2)]"

definition T6e :: "real \<Rightarrow> mat" where
  "T6e q6 = compose_T_symb [Rot AxisZ q6, Trans AxisZ (l5 + l6), Trans AxisX 0, Rot AxisX 0]"

text \<open>\<open>get_dh(use_different_qs=False)\<close>: every symbol \<open>q\<^sub>i\<close> replaced by the one symbol
  \<open>q\<close>; \<open>ts_num\<close> are these six expressions as numeric functions of \<open>q\<close>.\<close>

definition get_dh :: "(real \<Rightarrow> mat) list" where
  "get_dh = [T12, T23, T34, T45, T56, T6e]"

definition ts_num :: "(real \<Rightarrow> mat) list" where
  "ts_num = get_dh"

subsection \<open>Forward kinematics\<close>

text \<open>One pass of \<open>ts[i+1] = ts[i].dot(ts[i+1])\<close>; reading past the end of the list
  raises IndexError.\<close>

definition fk_step :: "nat \<Rightarrow> mat list \<Rightarrow> error + mat list" where
  "fk_step i ts =
     (if i + 1 < length ts then Inr (ts[i + 1 := mat_mul (ts ! i) (ts ! (i + 1))])
      else Inl IndexError)"

fun fk_loop :: "nat list \<Rightarrow> mat list \<Rightarrow> error + mat list" where
  "fk_loop [] ts = Inr ts"
| "fk_loop (i # is) ts = ebind (fk_step i ts) (fk_loop is)"

datatype fk_result = EE mat | Full "mat list" | NoneResult

definition get_fk_solution :: "vec \<Rightarrow> string \<Rightarrow> error + fk_result" where
  "get_fk_solution qs flag =
     ebind (fk_loop [0..<n_joints - 1] (map (\<lambda>(t, q). t q) (zip ts_num qs)))
       (\<lambda>ts. if flag = ''ee'' then (if ts = [] then Inl IndexError else Inr (EE (last ts)))
             else if flag = ''full'' then Inr (Full ts)
             else Inr NoneResult)"

definition eps :: real where "eps = 0.000000001"

definition eq_eps :: "real \<Rightarrow> real \<Rightarrow> bool" where
  "eq_eps a b = (\<bar>a - b\<bar> < eps)"

definition base_default :: mat where
  "base_default = eye dim_h"

subsection \<open>The Jacobian\<close>

text \<open>\<open>J[:3,i] = v\<close> and \<open>J[3:,i] = z\<close> on the 6 by 6 array \<open>J\<close>: a value of length 3
  (or of length 1, broadcast) is stored, any other length is a ValueError.\<close>

definition set_rows_col :: "nat list \<Rightarrow> nat \<Rightarrow> vec \<Rightarrow> mat \<Rightarrow> error + mat" where
  "set_rows_col rows i v J =
     (if length v = length rows
      then Inr (fold (\<lambda>(r, x) M. M[r := (M ! r)[i := x]]) (zip rows v) J)
      else if length v = 1
      then Inr (fold (\<lambda>r M. M[r := (M ! r)[i := hd v]]) rows J)
      else Inl ValueError)"

definition jacobian_step :: "mat list \<Rightarrow> mat \<Rightarrow> nat \<Rightarrow> mat \<Rightarrow> error + mat" where
  "jacobian_step fks ee i J =
     (if i < length fks then
        ebind (slice3_col (fks ! i) 2) (\<lambda>z.
        ebind (slice3_col ee 3) (\<lambda>o_ee.
        ebind (slice3_col (fks ! i) 3) (\<lambda>o_i.
        ebind (np_sub o_ee o_i) (\<lambda>o_diff.
        ebind (cross z o_diff) (\<lambda>c.
        ebind (set_rows_col [0, 1, 2] i c J) (\<lambda>J'.
        set_rows_col [3, 4, 5] i z J'))))))
      else Inl IndexError)"

fun jacobian_loop :: "mat list \<Rightarrow> mat \<Rightarrow> nat list \<Rightarrow> mat \<Rightarrow> error + mat" where
  "jacobian_loop fks ee [] J = Inr J"
| "jacobian_loop fks ee (i # is) J = ebind (jacobian_step fks ee i J) (jacobian_loop fks ee is)"

definition zeros :: "nat \<Rightarrow> nat \<Rightarrow> mat" where
  "zeros r c = replicate r (replicate c 0)"

definition jacobian :: "mat list \<Rightarrow> error + mat" where
  "jacobian frames =
     (let fks = base_default # frames; ee = last fks
      in jacobian_loop fks ee [0..<6] (zeros n_joints n_joints))"

definition cartesian_velocity :: "mat \<Rightarrow> vec \<Rightarrow> error + vec" where
  "cartesian_velocity J q_dot = mat_vec J q_dot"

subsection \<open>Decomposition of a transform into a pose\<close>

definition go :: "mat \<Rightarrow> real \<Rightarrow> error + vec list" where
  "go W m2 =
     ebind (at2 W 0 2) (\<lambda>w02.
       if eq_eps \<bar>w02\<bar> 0 then Inr [[]]
       else
         ebind (at2 W 0 1) (\<lambda>w01.
         ebind (at2 W 0 0) (\<lambda>w00.
           let q3 = arctan2 (- w01 * m2) (w00 * m2); c3 = cos q3 in
           if \<not> eq_eps c3 0 then
             (let q2 = arctan2 w02 (w00 / c3); c2 = cos q2 in
              ebind (at2 W 1 2) (\<lambda>w12.
              ebind (at2 W 2 2) (\<lambda>w22.
                Inr [[arctan2 (- w12 / c2) (w22 / c2), q2, q3]])))
           else
             (let s3 = sin q3; q2 = arctan2 w02 (w01 / - s3); c2 = cos q2 in
              ebind (at2 W 1 2) (\<lambda>w12.
              ebind (at2 W 2 2) (\<lambda>w22.
                Inr [[arctan2 (- w12 / c2) (w22 / c2), q2, q3]]))))))"

text \<open>The comprehension reads \<open>W[0,3], W[1,3], W[2,3]\<close> once for every candidate.\<close>

fun prepend_translation :: "'a list list \<Rightarrow> 'a list list \<Rightarrow> error + 'a list list" where
  "prepend_translation W [] = Inr []"
| "prepend_translation W (q # qs) =
     ebind (at2 W 0 3) (\<lambda>x.
     ebind (at2 W 1 3) (\<lambda>y.
     ebind (at2 W 2 3) (\<lambda>z.
     ebind (prepend_translation W qs) (\<lambda>rest. Inr (([x, y, z] @ q) # rest)))))"

definition decompose_transformation :: "mat \<Rightarrow> error + vec list" where
  "decompose_transformation W =
     ebind (go W (- 1)) (\<lambda>a.
     ebind (go W 1) (\<lambda>b.
     prepend_translation W (a @ b)))"

subsection \<open>The decomposition over the arithmetic of numpy\<close>

text \<open>
  The same function with the arithmetic of numpy's doubles as a parameter: the number
  type, the conversion of the Python integers \<open>-1\<close>, \<open>0\<close> and \<open>1\<close>, the constant \<open>eps\<close>,
  the four operations the function uses, the comparison, and \<open>np.abs\<close>, \<open>np.cos\<close>,
  \<open>np.sin\<close>, \<open>np.arctan2\<close>. Nothing is assumed of them, so what holds for every
  arithmetic holds with rounding, signed zeros, \<open>inf\<close> and \<open>nan\<close>.
\<close>

record 'f arith =
  fl_of_int :: "int \<Rightarrow> 'f"
  fl_eps :: "'f"
  fl_neg :: "'f \<Rightarrow> 'f"
  fl_sub :: "'f \<Rightarrow> 'f \<Rightarrow> 'f"
  fl_mul :: "'f \<Rightarrow> 'f \<Rightarrow> 'f"
  fl_div :: "'f \<Rightarrow> 'f \<Rightarrow> 'f"
  fl_abs :: "'f \<Rightarrow> 'f"
  fl_less :: "'f \<Rightarrow> 'f \<Rightarrow> bool"
  fl_cos :: "'f \<Rightarrow> 'f"
  fl_sin :: "'f \<Rightarrow> 'f"
  fl_arctan2 :: "'f \<Rightarrow> 'f \<Rightarrow> 'f"

text \<open>\<open>eq(a, 0)\<close>, that is \<open>np.abs(a - 0) < eps\<close>.\<close>

definition eq_zero_fl :: "'f arith \<Rightarrow> 'f \<Rightarrow> bool" where
  "eq_zero_fl A a = fl_less A (fl_abs A (fl_sub A a (fl_of_int A 0))) (fl_eps A)"

definition go_fl :: "'f arith \<Rightarrow> 'f list list \<Rightarrow> int \<Rightarrow> error + 'f list list" where
  "go_fl A W m2 =
     ebind (at2 W 0 2) (\<lambda>w02.
       if eq_zero_fl A (fl_abs A w02) then Inr [[]]
       else
         ebind (at2 W 0 1) (\<lambda>w01.
         ebind (at2 W 0 0) (\<lambda>w00.
           let q3 = fl_arctan2 A (fl_mul A (fl_neg A w01) (fl_of_int A m2))
                      (fl_mul A w00 (fl_of_int A m2));
               c3 = fl_cos A q3 in
           if \<not> eq_zero_fl A c3 then
             (let q2 = fl_arctan2 A w02 (fl_div A w00 c3); c2 = fl_cos A q2 in
              ebind (at2 W 1 2) (\<lambda>w12.
              ebind (at2 W 2 2) (\<lambda>w22.
                Inr [[fl_arctan2 A (fl_div A (fl_neg A w12) c2) (fl_div A w22 c2), q2, q3]])))
           else
             (let s3 = fl_sin A q3; q2 = fl_arctan2 A w02 (fl_div A w01 (fl_neg A s3));
                  c2 = fl_cos A q2 in
              ebind (at2 W 1 2) (\<lambda>w12.
              ebind (at2 W 2 2) (\<lambda>w22.
                Inr [[fl_arctan2 A (fl_div A (fl_neg A w12) c2) (fl_div A w22 c2), q2, q3]]))))))"

definition decompose_fl :: "'f arith \<Rightarrow> 'f list list \<Rightarrow> error + 'f list list" where
  "decompose_fl A W =
     ebind (go_fl A W (- 1)) (\<lambda>a.
     ebind (go_fl A W 1) (\<lambda>b.
     prepend_translation W (a @ b)))"

text \<open>The exact arithmetic of the reals, at which \<open>go_fl\<close> and \<open>decompose_fl\<close> are \<open>go\<close> and
  \<open>decompose_transformation\<close> (lemmas \<open>go_fl_exact\<close>, \<open>decompose_fl_exact\<close>).\<close>

definition exact_arith :: "real arith" where
  "exact_arith =
     \<lparr>fl_of_int = of_int, fl_eps = eps, fl_neg = uminus, fl_sub = (-), fl_mul = (*),
      fl_div = (/), fl_abs = abs, fl_less = (<), fl_cos = cos, fl_sin = sin,
      fl_arctan2 = arctan2\<rparr>"

text \<open>
  The double nearest to \<open>\<pi>/2\<close> is not \<open>\<pi>/2\<close>, and \<open>np.cos\<close> of it is
  \<open>6.123233995736766e-17\<close>, not \<open>0\<close>. The arithmetic \<open>double_arith\<close> is the exact one but
  for this: its cosine returns that value where \<open>np.arctan2\<close> returns the double of
  \<open>\<pi>/2\<close> or of \<open>-\<pi>/2\<close>.
\<close>

definition cos_double :: "real \<Rightarrow> real" where
  "cos_double x = (if x = pi / 2 \<or> x = - (pi / 2) then 6123233995736766 / 10 ^ 32 else cos x)"

definition double_arith :: "real arith" where
  "double_arith = exact_arith\<lparr>fl_cos := cos_double\<rparr>"

text \<open>A valid homogeneous transform whose entry \<open>[0,0]\<close> is zero, so that \<open>a3\<close> is \<open>-\<pi>/2\<close>
  and \<open>\<pi>/2\<close> in the two branches.\<close>

definition example_frame :: mat where
  "example_frame =
     [[0, - (4 / 5), 3 / 5, 0], [3 / 5, 12 / 25, 16 / 25, 0], [- (4 / 5), 9 / 25, 12 / 25, 0],
      [0, 0, 0, 1]]"

subsection \<open>The vector field of the inverse-kinematics solver\<close>

definition t0 :: real where "t0 = 0"
definition tf :: real where "tf = 10"
definition n_steps :: real where "n_steps = 10000"

definition k_gain :: real where
  "k_gain = (tf - t0) / n_steps"

text \<open>\<open>state_space(y, t)\<close> inside \<open>solve_motion\<close>, with the target pose \<open>x1\<close> it closes
  over as a parameter.\<close>

definition state_space :: "vec \<Rightarrow> vec \<Rightarrow> real \<Rightarrow> error + vec" where
  "state_space x1 y t =
     ebind (get_fk_solution y ''full'') (\<lambda>r.
       case r of
         Full fk \<Rightarrow>
           ebind (jacobian fk) (\<lambda>J.
           if fk = [] then Inl IndexError else
           ebind (decompose_transformation (last fk)) (\<lambda>cands.
           if cands = [] then Inl IndexError else
           ebind (np_sub x1 (hd cands)) (\<lambda>d.
           mat_vec J (map (\<lambda>x. x * k_gain) d))))
       | _ \<Rightarrow> Inl TypeError)"

subsection \<open>Notions used to state the properties\<close>

definition is44 :: "'a list list \<Rightarrow> bool" where
  "is44 A = (length A = 4 \<and> list_all (\<lambda>r. length r = 4) A)"

definition is33 :: "mat \<Rightarrow> bool" where
  "is33 A = (length A = 3 \<and> list_all (\<lambda>r. length r = 3) A)"

text \<open>\<open>T[:3,:3]\<close>, the translation \<open>T[:3,3]\<close> and the joint axis \<open>T[:3,2]\<close> of a frame.\<close>

definition rot_block :: "mat \<Rightarrow> mat" where
  "rot_block T = map (take 3) (take 3 T)"

definition translation_of :: "'a list list \<Rightarrow> 'a list" where
  "translation_of T = [T ! 0 ! 3, T ! 1 ! 3, T ! 2 ! 3]"

definition z_axis_of :: "mat \<Rightarrow> vec" where
  "z_axis_of T = [T ! 0 ! 2, T ! 1 ! 2, T ! 2 ! 2]"

definition transp_mat :: "mat \<Rightarrow> mat" where
  "transp_mat A = map (column A) [0..<ncols A]"

definition det3 :: "mat \<Rightarrow> real" where
  "det3 R =
     R ! 0 ! 0 * (R ! 1 ! 1 * R ! 2 ! 2 - R ! 1 ! 2 * R ! 2 ! 1)
     - R ! 0 ! 1 * (R ! 1 ! 0 * R ! 2 ! 2 - R ! 1 ! 2 * R ! 2 ! 0)
     + R ! 0 ! 2 * (R ! 1 ! 0 * R ! 2 ! 1 - R ! 1 ! 1 * R ! 2 ! 0)"

definition orthonormal3 :: "mat \<Rightarrow> bool" where
  "orthonormal3 R = (mat_mul R (transp_mat R) = eye 3 \<and> mat_mul (transp_mat R) R = eye 3)"

definition valid_homogeneous :: "mat \<Rightarrow> bool" where
  "valid_homogeneous T =
     (is44 T \<and> T ! 3 = [0, 0, 0, 1] \<and> orthonormal3 (rot_block T) \<and> det3 (rot_block T) = 1)"

text \<open>The cross product of two 3-vectors, as the specification writes it in
  \<open>z\<^sub>i \<times> (o\<^sub>e\<^sub>e - o\<^sub>i)\<close>.\<close>

definition cross_product :: "vec \<Rightarrow> vec \<Rightarrow> vec" where
  "cross_product a b =
     [a ! 1 * b ! 2 - a ! 2 * b ! 1, a ! 2 * b ! 0 - a ! 0 * b ! 2, a ! 0 * b ! 1 - a ! 1 * b ! 0]"

text \<open>Column \<open>i\<close> of the Jacobian in the words of the specification:
  \<open>[z\<^sub>i \<times> (o\<^sub>e\<^sub>e - o\<^sub>i) ; z\<^sub>i]\<close> for the frame \<open>F\<close> of joint \<open>i\<close> and the end-effector frame.\<close>

definition jac_column :: "mat \<Rightarrow> mat \<Rightarrow> vec" where
  "jac_column F ee =
     cross_product (z_axis_of F) (map2 (-) (translation_of ee) (translation_of F)) @ z_axis_of F"

text \<open>The angle triple of one sign branch on exact reals with the test \<open>cos a3 \<noteq> 0\<close>;
  there the test of the program, \<open>not eq(c3, 0)\<close>, gives the same triple (lemma
  \<open>go_regular\<close>).\<close>

definition spec_angles :: "mat \<Rightarrow> real \<Rightarrow> vec" where
  "spec_angles W m2 =
     (let a3 = arctan2 (- (W ! 0 ! 1) * m2) (W ! 0 ! 0 * m2);
          a2 = (if cos a3 \<noteq> 0 then arctan2 (W ! 0 ! 2) (W ! 0 ! 0 / cos a3)
                else arctan2 (W ! 0 ! 2) (W ! 0 ! 1 / - sin a3));
          a1 = arctan2 (- (W ! 1 ! 2) / cos a2) (W ! 2 ! 2 / cos a2)
      in [a1, a2, a3])"

definition spec_decompose :: "mat \<Rightarrow> vec list" where
  "spec_decompose T =
     [translation_of T @ spec_angles T (- 1), translation_of T @ spec_angles T 1]"

text \<open>The angle triple of one sign branch over an arithmetic, with the test of the
  program, \<open>not eq(cos a3, 0)\<close>, and with the test of the specification, \<open>cos a3 \<noteq> 0\<close>.\<close>

definition a3_fl :: "'f arith \<Rightarrow> 'f list list \<Rightarrow> int \<Rightarrow> 'f" where
  "a3_fl A W m2 =
     fl_arctan2 A (fl_mul A (fl_neg A (W ! 0 ! 1)) (fl_of_int A m2))
       (fl_mul A (W ! 0 ! 0) (fl_of_int A m2))"

definition a1_fl :: "'f arith \<Rightarrow> 'f list list \<Rightarrow> 'f \<Rightarrow> 'f" where
  "a1_fl A W a2 =
     fl_arctan2 A (fl_div A (fl_neg A (W ! 1 ! 2)) (fl_cos A a2)) (fl_div A (W ! 2 ! 2) (fl_cos A a2))"

definition angles_eps_test :: "'f arith \<Rightarrow> 'f list list \<Rightarrow> int \<Rightarrow> 'f list" where
  "angles_eps_test A W m2 =
     (let a3 = a3_fl A W m2;
          a2 = (if \<not> eq_zero_fl A (fl_cos A a3)
                then fl_arctan2 A (W ! 0 ! 2) (fl_div A (W ! 0 ! 0) (fl_cos A a3))
                else fl_arctan2 A (W ! 0 ! 2) (fl_div A (W ! 0 ! 1) (fl_neg A (fl_sin A a3))))
      in [a1_fl A W a2, a2, a3])"

definition angles_zero_test :: "'f arith \<Rightarrow> 'f list list \<Rightarrow> int \<Rightarrow> 'f list" where
  "angles_zero_test A W m2 =
     (let a3 = a3_fl A W m2;
          a2 = (if fl_cos A a3 \<noteq> fl_of_int A 0
                then fl_arctan2 A (W ! 0 ! 2) (fl_div A (W ! 0 ! 0) (fl_cos A a3))
                else fl_arctan2 A (W ! 0 ! 2) (fl_div A (W ! 0 ! 1) (fl_neg A (fl_sin A a3))))
      in [a1_fl A W a2, a2, a3])"

text \<open>The rotation matrix of an angle triple under the convention of the decomposition:
  the formulas of \<open>go\<close> invert \<open>R\<^sub>x(a1) R\<^sub>y(a2) R\<^sub>z(a3)\<close>.\<close>

definition rebuild_rot :: "vec \<Rightarrow> mat" where
  "rebuild_rot a =
     mat_mul (mat_mul (rot33 AxisX (a ! 0)) (rot33 AxisY (a ! 1))) (rot33 AxisZ (a ! 2))"

definition close_to :: "real \<Rightarrow> mat \<Rightarrow> mat \<Rightarrow> bool" where
  "close_to tol A B = list_all2 (list_all2 (\<lambda>a b. \<bar>a - b\<bar> \<le> tol)) A B"

definition candidate_ok :: "mat \<Rightarrow> vec \<Rightarrow> bool" where
  "candidate_ok T c = (length c = 6 \<and> close_to (1 / 10 ^ 6) (rebuild_rot (drop 3 c)) (rot_block T))"

text \<open>The round trip: some candidate of the decomposition of the end-effector frame
  rebuilds the rotation block of that frame.\<close>

definition roundtrip :: "vec \<Rightarrow> bool" where
  "roundtrip q =
     (case get_fk_solution q ''ee'' of
        Inr (EE T) \<Rightarrow>
          (case decompose_transformation T of
             Inr cs \<Rightarrow> list_ex (candidate_ok T) cs
           | Inl e \<Rightarrow> False)
      | _ \<Rightarrow> False)"

text \<open>The frames of a joint vector as products of the per-joint transforms: what the
  loop of \<open>get_fk_solution\<close> leaves in \<open>ts\<close> (lemma \<open>fk_loop_frames\<close>).\<close>

definition fk_frames :: "vec \<Rightarrow> mat list" where
  "fk_frames qs =
     (let A = T12 (qs ! 0); B = mat_mul A (T23 (qs ! 1)); C = mat_mul B (T34 (qs ! 2));
          D = mat_mul C (T45 (qs ! 3)); E = mat_mul D (T56 (qs ! 4)); F = mat_mul E (T6e (qs ! 5))
      in [A, B, C, D, E, F])"

section \<open>Evaluation of the transforms\<close>

lemma eye4: "eye 4 = [[1, 0, 0, 0], [0, 1, 0, 0], [0, 0, 1, 0], [0, 0, 0, 1]]"
  by (simp add: eye_def upt_rec)

lemma eye3: "eye 3 = [[1, 0, 0], [0, 1, 0], [0, 0, 1]]"
  by (simp add: eye_def upt_rec)

lemma base_default_eye4: "base_default = [[1, 0, 0, 0], [0, 1, 0, 0], [0, 0, 1, 0], [0, 0, 0, 1]]"
  by (simp add: base_default_def dim_h_def eye4)

lemma mat_mul_44:
  "mat_mul [[a00, a01, a02, a03], [a10, a11, a12, a13], [a20, a21, a22, a23], [a30, a31, a32, a33]]
           [[b00, b01, b02, b03], [b10, b11, b12, b13], [b20, b21, b22, b23], [b30, b31, b32, b33]] =
   [[a00 * b00 + a01 * b10 + a02 * b20 + a03 * b30, a00 * b01 + a01 * b11 + a02 * b21 + a03 * b31,
     a00 * b02 + a01 * b12 + a02 * b22 + a03 * b32, a00 * b03 + a01 * b13 + a02 * b23 + a03 * b33],
    [a10 * b00 + a11 * b10 + a12 * b20 + a13 * b30, a10 * b01 + a11 * b11 + a12 * b21 + a13 * b31,
     a10 * b02 + a11 * b12 + a12 * b22 + a13 * b32, a10 * b03 + a11 * b13 + a12 * b23 + a13 * b33],
    [a20 * b00 + a21 * b10 + a22 * b20 + a23 * b30, a20 * b01 + a21 * b11 + a22 * b21 + a23 * b31,
     a20 * b02 + a21 * b12 + a22 * b22 + a23 * b32, a20 * b03 + a21 * b13 + a22 * b23 + a23 * b33],
    [a30 * b00 + a31 * b10 + a32 * b20 + a33 * b30, a30 * b01 + a31 * b11 + a32 * b21 + a33 * b31,
     a30 * b02 + a31 * b12 + a32 * b22 + a33 * b32, a30 * b03 + a31 * b13 + a32 * b23 + a33 * b33]]"
  by (simp add: mat_mul_def ncols_def column_def dotp_def upt_rec)

lemma is44_form:
  assumes "is44 A"
  obtains a00 a01 a02 a03 a10 a11 a12 a13 a20 a21 a22 a23 a30 a31 a32 a33 where
    "A = [[a00, a01, a02, a03], [a10, a11, a12, a13], [a20, a21, a22, a23], [a30, a31, a32, a33]]"
proof -
  have len4: "\<exists>a b c d. xs = [a, b, c, d]" if "length xs = 4" for xs :: "'b list"
    using that by (auto simp: length_Suc_conv numeral_eq_Suc)
  from assms obtain r0 r1 r2 r3 where A: "A = [r0, r1, r2, r3]"
    using len4 [of A] by (auto simp: is44_def)
  with assms have "length r0 = 4" "length r1 = 4" "length r2 = 4" "length r3 = 4"
    by (simp_all add: is44_def)
  then show thesis
    using len4 [of r0] len4 [of r1] len4 [of r2] len4 [of r3] A that by blast
qed

lemma is44_explicit [simp]:
  "is44 [[a00, a01, a02, a03], [a10, a11, a12, a13], [a20, a21, a22, a23], [a30, a31, a32, a33]]"
  by (simp add: is44_def)

lemma is44_mat_mul: "is44 A \<Longrightarrow> is44 B \<Longrightarrow> is44 (mat_mul A B)"
  by (erule is44_form, erule is44_form) (simp add: mat_mul_44)

lemma mat_mul_eye4_left: "is44 A \<Longrightarrow> mat_mul (eye 4) A = A"
  by (erule is44_form) (simp add: eye4 mat_mul_44)

lemma rot_symb_Z:
  "rot_symb AxisZ q = [[cos q, - sin q, 0, 0], [sin q, cos q, 0, 0], [0, 0, 1, 0], [0, 0, 0, 1]]"
  by (simp add: rot_symb_def set_block33_def eye4)

lemma rot_symb_X:
  "rot_symb AxisX q = [[1, 0, 0, 0], [0, cos q, - sin q, 0], [0, sin q, cos q, 0], [0, 0, 0, 1]]"
  by (simp add: rot_symb_def set_block33_def eye4)

lemma trans_symb_Z: "trans_symb AxisZ d = [[1, 0, 0, 0], [0, 1, 0, 0], [0, 0, 1, d], [0, 0, 0, 1]]"
  by (simp add: trans_symb_def set_col3_def eye4)

lemma trans_symb_X: "trans_symb AxisX d = [[1, 0, 0, d], [0, 1, 0, 0], [0, 0, 1, 0], [0, 0, 0, 1]]"
  by (simp add: trans_symb_def set_col3_def eye4)

text \<open>The four-step composition of one row of the Denavit-Hartenberg table.\<close>

lemma dh_form:
  "compose_T_symb [Rot AxisZ q, Trans AxisZ d, Trans AxisX a, Rot AxisX al] =
    [[cos q, - sin q * cos al, sin q * sin al, a * cos q],
     [sin q, cos q * cos al, - cos q * sin al, a * sin q],
     [0, sin al, cos al, d],
     [0, 0, 0, 1]]"
  by (simp add: compose_T_symb_def rot_symb_Z rot_symb_X trans_symb_Z trans_symb_X mat_mul_44)

lemma link_length_values: "l1 = 1" "l2 = 1" "l3 = 1" "l4 = 1" "l5 = 1" "l6 = 1"
  by (simp_all add: l1_def l2_def l3_def l4_def l5_def l6_def link_lengths_def)

lemma T12_form: "T12 q = [[cos q, 0, sin q, 0], [sin q, 0, - cos q, 0], [0, 1, 0, 1], [0, 0, 0, 1]]"
  by (simp add: T12_def dh_form link_length_values)

lemma T23_form: "T23 q = [[cos q, - sin q, 0, cos q], [sin q, cos q, 0, sin q], [0, 0, 1, 0], [0, 0, 0, 1]]"
  by (simp add: T23_def dh_form link_length_values)

lemma T34_form: "T34 q = [[cos q, 0, - sin q, cos q], [sin q, 0, cos q, sin q], [0, - 1, 0, 0], [0, 0, 0, 1]]"
  by (simp add: T34_def dh_form link_length_values)

lemma T45_form: "T45 q = [[cos q, 0, - sin q, 0], [sin q, 0, cos q, 0], [0, - 1, 0, 1], [0, 0, 0, 1]]"
  by (simp add: T45_def dh_form link_length_values)

lemma T56_form: "T56 q = [[sin q, 0, cos q, 0], [- cos q, 0, sin q, 0], [0, - 1, 0, 0], [0, 0, 0, 1]]"
  by (simp add: T56_def dh_form link_length_values sin_diff cos_diff)

lemma T6e_form: "T6e q = [[cos q, - sin q, 0, 0], [sin q, cos q, 0, 0], [0, 0, 1, 2], [0, 0, 0, 1]]"
  by (simp add: T6e_def dh_form link_length_values)

lemmas dh_forms = T12_form T23_form T34_form T45_form T56_form T6e_form

lemma is44_dh: "is44 (T12 q)" "is44 (T23 q)" "is44 (T34 q)" "is44 (T45 q)" "is44 (T56 q)" "is44 (T6e q)"
  by (simp_all add: dh_forms)

section \<open>The forward-kinematics loop\<close>

lemma fk_loop_6:
  "fk_loop [0..<n_joints - 1] [A, B, C, D, E, F] =
     Inr [A, mat_mul A B, mat_mul (mat_mul A B) C, mat_mul (mat_mul (mat_mul A B) C) D,
          mat_mul (mat_mul (mat_mul (mat_mul A B) C) D) E,
          mat_mul (mat_mul (mat_mul (mat_mul (mat_mul A B) C) D) E) F]"
  by (simp add: n_joints_def upt_rec fk_step_def ebind_def)

lemma zip_ts_num:
  "map (\<lambda>(t, q). t q) (zip ts_num (a # b # c # d # e # f # rest)) =
     [T12 a, T23 b, T34 c, T45 d, T56 e, T6e f]"
  by (simp add: ts_num_def get_dh_def)

lemma list_6_or_more:
  assumes "6 \<le> length qs"
  obtains a b c d e f rest where "qs = a # b # c # d # e # f # rest"
proof -
  from assms have "\<exists>a b c d e f rest. qs = a # b # c # d # e # f # rest"
    by (auto simp: Suc_le_length_iff numeral_eq_Suc)
  then show thesis using that by blast
qed

lemma fk_loop_frames:
  assumes "6 \<le> length qs"
  shows "fk_loop [0..<n_joints - 1] (map (\<lambda>(t, q). t q) (zip ts_num qs)) = Inr (fk_frames qs)"
proof -
  from assms obtain a b c d e f rest where qs: "qs = a # b # c # d # e # f # rest"
    by (rule list_6_or_more)
  show ?thesis
    unfolding qs zip_ts_num fk_loop_6 by (simp add: fk_frames_def Let_def)
qed

lemma get_fk_full: "6 \<le> length qs \<Longrightarrow> get_fk_solution qs ''full'' = Inr (Full (fk_frames qs))"
  unfolding get_fk_solution_def by (simp only: fk_loop_frames) (simp add: ebind_def)

lemma fk_frames_length [simp]: "length (fk_frames qs) = 6"
  by (simp add: fk_frames_def Let_def)

lemma fk_frames_not_Nil [simp]: "fk_frames qs \<noteq> []"
  by (simp add: fk_frames_def Let_def)

lemma get_fk_ee: "6 \<le> length qs \<Longrightarrow> get_fk_solution qs ''ee'' = Inr (EE (last (fk_frames qs)))"
  unfolding get_fk_solution_def by (simp only: fk_loop_frames) (simp add: ebind_def)

lemma all_less_6: "(\<forall>i<6::nat. P i) = (P 0 \<and> P 1 \<and> P 2 \<and> P 3 \<and> P 4 \<and> P 5)"
proof
  assume a: "\<forall>i<6. P i"
  show "P 0 \<and> P 1 \<and> P 2 \<and> P 3 \<and> P 4 \<and> P 5" by (simp add: a)
next
  assume c: "P 0 \<and> P 1 \<and> P 2 \<and> P 3 \<and> P 4 \<and> P 5"
  show "\<forall>i<6. P i"
  proof (intro allI impI)
    fix i :: nat
    assume "i < 6"
    then consider "i = 0" | "i = 1" | "i = 2" | "i = 3" | "i = 4" | "i = 5"
      by linarith
    then show "P i" using c by cases simp_all
  qed
qed

lemma fk_frames_zero:
  "fk_frames [0, 0, 0, 0, 0, 0] =
     [[[1, 0, 0, 0], [0, 0, - 1, 0], [0, 1, 0, 1], [0, 0, 0, 1]],
      [[1, 0, 0, 1], [0, 0, - 1, 0], [0, 1, 0, 1], [0, 0, 0, 1]],
      [[1, 0, 0, 2], [0, 1, 0, 0], [0, 0, 1, 1], [0, 0, 0, 1]],
      [[1, 0, 0, 2], [0, 0, 1, 0], [0, - 1, 0, 2], [0, 0, 0, 1]],
      [[0, 0, 1, 2], [0, - 1, 0, 0], [1, 0, 0, 2], [0, 0, 0, 1]],
      [[0, 0, 1, 4], [0, - 1, 0, 0], [1, 0, 0, 2], [0, 0, 0, 1]]]"
  by (simp add: fk_frames_def Let_def dh_forms mat_mul_44)

lemma ts_num_nth:
  "ts_num ! 0 = T12" "ts_num ! Suc 0 = T23" "ts_num ! 2 = T34" "ts_num ! 3 = T45" "ts_num ! 4 = T56"
  "ts_num ! 5 = T6e"
  by (simp_all add: ts_num_def get_dh_def)

lemma fk_frames_recurrence:
  "\<forall>i<6. fk_frames qs ! i = mat_mul ((base_default # fk_frames qs) ! i) ((ts_num ! i) (qs ! i))"
  unfolding all_less_6
  by (simp add: ts_num_nth fk_frames_def Let_def base_default_def dim_h_def mat_mul_eye4_left is44_dh)

text \<open>
  C2 (as amended). For a joint vector of six reals the full-chain forward kinematics
  returns six frames; frame \<open>i\<close> is the frame before it (the identity base frame for the
  first, which is not part of the returned list) times the transform of joint \<open>i\<close> at its
  angle; the end-effector request returns the last frame of that list.
\<close>

theorem fk_full_six_frames:
  assumes "length qs = 6"
  shows "\<exists>ts. get_fk_solution qs ''full'' = Inr (Full ts) \<and> length ts = 6 \<and>
           (\<forall>i<6. ts ! i = mat_mul ((base_default # ts) ! i) ((ts_num ! i) (qs ! i))) \<and>
           get_fk_solution qs ''ee'' = Inr (EE (last ts))"
proof -
  from assms have six: "6 \<le> length qs" by simp
  show ?thesis
    using get_fk_full [OF six] get_fk_ee [OF six] fk_frames_recurrence [of qs]
    by (intro exI [of _ "fk_frames qs"]) simp
qed

theorem fk_full_six_frames_witness:
  "length [0, 0, 0, 0, 0, 0 :: real] = 6 \<and>
   (\<exists>ts. get_fk_solution [0, 0, 0, 0, 0, 0] ''full'' = Inr (Full ts) \<and> length ts = 6 \<and>
      get_fk_solution [0, 0, 0, 0, 0, 0] ''ee'' = Inr (EE (last ts)))"
  using fk_full_six_frames [of "[0, 0, 0, 0, 0, 0]"] by auto

text \<open>
  C2 as stated fails: at the all-zero joint vector the returned list has six frames and
  does not start with the identity; it is not the seven-frame list the claim describes.
\<close>

theorem fk_full_seven_frames_counterexample:
  "get_fk_solution [0, 0, 0, 0, 0, 0] ''full'' =
     Inr (Full
       [[[1, 0, 0, 0], [0, 0, - 1, 0], [0, 1, 0, 1], [0, 0, 0, 1]],
        [[1, 0, 0, 1], [0, 0, - 1, 0], [0, 1, 0, 1], [0, 0, 0, 1]],
        [[1, 0, 0, 2], [0, 1, 0, 0], [0, 0, 1, 1], [0, 0, 0, 1]],
        [[1, 0, 0, 2], [0, 0, 1, 0], [0, - 1, 0, 2], [0, 0, 0, 1]],
        [[0, 0, 1, 2], [0, - 1, 0, 0], [1, 0, 0, 2], [0, 0, 0, 1]],
        [[0, 0, 1, 4], [0, - 1, 0, 0], [1, 0, 0, 2], [0, 0, 0, 1]]]) \<and>
   get_fk_solution [0, 0, 0, 0, 0, 0] ''full'' \<noteq>
     Inr (Full
       [base_default,
        [[1, 0, 0, 0], [0, 0, - 1, 0], [0, 1, 0, 1], [0, 0, 0, 1]],
        [[1, 0, 0, 1], [0, 0, - 1, 0], [0, 1, 0, 1], [0, 0, 0, 1]],
        [[1, 0, 0, 2], [0, 1, 0, 0], [0, 0, 1, 1], [0, 0, 0, 1]],
        [[1, 0, 0, 2], [0, 0, 1, 0], [0, - 1, 0, 2], [0, 0, 0, 1]],
        [[0, 0, 1, 2], [0, - 1, 0, 0], [1, 0, 0, 2], [0, 0, 0, 1]],
        [[0, 0, 1, 4], [0, - 1, 0, 0], [1, 0, 0, 2], [0, 0, 0, 1]]])"
  by (simp add: get_fk_full fk_frames_zero base_default_eye4)

text \<open>
  C7 (as amended). At the all-zero joint configuration the end-effector translation is
  \<open>(l2 + l3 + l5 + l6, 0, l1 + l4) = (4, 0, 2)\<close>: the offset \<open>l5 + l6\<close> of the last joint
  lies along the world x axis, so the z-component is \<open>l1 + l4 = 2\<close>.
\<close>

theorem ee_translation_at_zero:
  "\<exists>T. get_fk_solution input_initial ''ee'' = Inr (EE T) \<and>
        translation_of T = [l2 + l3 + l5 + l6, 0, l1 + l4] \<and>
        translation_of T = [4, 0, 2]"
  by (simp add: input_initial_def get_fk_ee fk_frames_zero translation_of_def link_length_values)

text \<open>
  C7 as stated fails: the z-component at the all-zero configuration is \<open>2\<close>, while
  \<open>l1 + l4 + l5 + l6 = 4\<close>.
\<close>

theorem ee_z_at_zero_counterexample:
  "get_fk_solution input_initial ''ee'' =
     Inr (EE [[0, 0, 1, 4], [0, - 1, 0, 0], [1, 0, 0, 2], [0, 0, 0, 1]]) \<and>
   [[0, 0, 1, 4], [0, - 1, 0, 0], [1, 0, 0, 2], [0, 0, 0, 1 :: real]] ! 2 ! 3 \<noteq> l1 + l4 + l5 + l6"
  by (simp add: input_initial_def get_fk_ee fk_frames_zero link_length_values)

section \<open>Rotation blocks\<close>

lemma mat_mul_33:
  "mat_mul [[a00, a01, a02], [a10, a11, a12], [a20, a21, a22]]
           [[b00, b01, b02], [b10, b11, b12], [b20, b21, b22]] =
   [[a00 * b00 + a01 * b10 + a02 * b20, a00 * b01 + a01 * b11 + a02 * b21,
     a00 * b02 + a01 * b12 + a02 * b22],
    [a10 * b00 + a11 * b10 + a12 * b20, a10 * b01 + a11 * b11 + a12 * b21,
     a10 * b02 + a11 * b12 + a12 * b22],
    [a20 * b00 + a21 * b10 + a22 * b20, a20 * b01 + a21 * b11 + a22 * b21,
     a20 * b02 + a21 * b12 + a22 * b22]]"
  by (simp add: mat_mul_def ncols_def column_def dotp_def upt_rec)

lemma transp_mat_33:
  "transp_mat [[a00, a01, a02], [a10, a11, a12], [a20, a21, a22]] =
     [[a00, a10, a20], [a01, a11, a21], [a02, a12, a22]]"
  by (simp add: transp_mat_def ncols_def column_def upt_rec)

lemma det3_33:
  "det3 [[a00, a01, a02], [a10, a11, a12], [a20, a21, a22]] =
     a00 * (a11 * a22 - a12 * a21) - a01 * (a10 * a22 - a12 * a20) + a02 * (a10 * a21 - a11 * a20)"
  by (simp add: det3_def)

lemma is33_form:
  assumes "is33 A"
  obtains a00 a01 a02 a10 a11 a12 a20 a21 a22 where
    "A = [[a00, a01, a02], [a10, a11, a12], [a20, a21, a22]]"
proof -
  have len3: "\<exists>a b c. xs = [a, b, c]" if "length xs = 3" for xs :: "'b list"
    using that by (auto simp: length_Suc_conv numeral_eq_Suc)
  from assms obtain r0 r1 r2 where A: "A = [r0, r1, r2]"
    using len3 [of A] by (auto simp: is33_def)
  with assms have "length r0 = 3" "length r1 = 3" "length r2 = 3"
    by (simp_all add: is33_def)
  then show thesis
    using len3 [of r0] len3 [of r1] len3 [of r2] A that by blast
qed

lemma is33_explicit [simp]: "is33 [[a00, a01, a02], [a10, a11, a12], [a20, a21, a22]]"
  by (simp add: is33_def)

lemma is33_mat_mul [simp]: "is33 A \<Longrightarrow> is33 B \<Longrightarrow> is33 (mat_mul A B)"
  by (erule is33_form, erule is33_form) (simp add: mat_mul_33)

lemma is33_transp [simp]: "is33 A \<Longrightarrow> is33 (transp_mat A)"
  by (erule is33_form) (simp add: transp_mat_33)

lemma is33_eye3 [simp]: "is33 (eye 3)"
  by (simp add: eye3)

lemma mat_mul_33_assoc:
  assumes "is33 A" "is33 B" "is33 C"
  shows "mat_mul (mat_mul A B) C = mat_mul A (mat_mul B C)"
  using assms
  by (elim is33_form) (simp add: mat_mul_33 algebra_simps)

lemma transp_mat_mul_33:
  assumes "is33 A" "is33 B"
  shows "transp_mat (mat_mul A B) = mat_mul (transp_mat B) (transp_mat A)"
  using assms
  by (elim is33_form) (simp add: mat_mul_33 transp_mat_33 algebra_simps)

lemma mat_mul_eye3_left: "is33 A \<Longrightarrow> mat_mul (eye 3) A = A"
  by (erule is33_form) (simp add: eye3 mat_mul_33)

lemma mat_mul_eye3_right: "is33 A \<Longrightarrow> mat_mul A (eye 3) = A"
  by (erule is33_form) (simp add: eye3 mat_mul_33)

lemma det3_mat_mul:
  assumes "is33 A" "is33 B"
  shows "det3 (mat_mul A B) = det3 A * det3 B"
  using assms
  by (elim is33_form) (simp add: mat_mul_33 det3_33 algebra_simps)

lemma orthonormal3_mat_mul:
  assumes A: "is33 A" and B: "is33 B" and oA: "orthonormal3 A" and oB: "orthonormal3 B"
  shows "orthonormal3 (mat_mul A B)"
proof -
  let ?At = "transp_mat A" and ?Bt = "transp_mat B"
  have At: "is33 ?At" and Bt: "is33 ?Bt" using A B by simp_all
  have "mat_mul (mat_mul A B) (transp_mat (mat_mul A B)) = mat_mul (mat_mul A B) (mat_mul ?Bt ?At)"
    by (simp add: transp_mat_mul_33 A B)
  also have "\<dots> = mat_mul A (mat_mul (mat_mul B ?Bt) ?At)"
    by (simp add: mat_mul_33_assoc A B At Bt)
  also have "\<dots> = eye 3"
    using oA oB by (simp add: orthonormal3_def mat_mul_eye3_left At)
  finally have 1: "mat_mul (mat_mul A B) (transp_mat (mat_mul A B)) = eye 3" .
  have "mat_mul (transp_mat (mat_mul A B)) (mat_mul A B) = mat_mul (mat_mul ?Bt ?At) (mat_mul A B)"
    by (simp add: transp_mat_mul_33 A B)
  also have "\<dots> = mat_mul ?Bt (mat_mul (mat_mul ?At A) B)"
    by (simp add: mat_mul_33_assoc A B At Bt)
  also have "\<dots> = eye 3"
    using oA oB by (simp add: orthonormal3_def mat_mul_eye3_left B)
  finally have 2: "mat_mul (transp_mat (mat_mul A B)) (mat_mul A B) = eye 3" .
  from 1 2 show ?thesis by (simp add: orthonormal3_def)
qed

lemma rot_block_44:
  "rot_block [[a00, a01, a02, a03], [a10, a11, a12, a13], [a20, a21, a22, a23], [a30, a31, a32, a33]] =
     [[a00, a01, a02], [a10, a11, a12], [a20, a21, a22]]"
  by (simp add: rot_block_def)

lemma is33_rot_block [simp]: "is44 T \<Longrightarrow> is33 (rot_block T)"
  by (erule is44_form) (simp add: rot_block_44)

lemma rot_block_mat_mul:
  assumes "is44 A" "is44 B" "B ! 3 = [0, 0, 0, 1]"
  shows "rot_block (mat_mul A B) = mat_mul (rot_block A) (rot_block B)"
  using assms
  by (elim is44_form) (simp add: mat_mul_44 rot_block_44 mat_mul_33)

lemma bottom_row_mat_mul:
  assumes "is44 A" "is44 B" "A ! 3 = [0, 0, 0, 1]" "B ! 3 = [0, 0, 0, 1]"
  shows "mat_mul A B ! 3 = [0, 0, 0, 1]"
  using assms
  by (elim is44_form) (simp add: mat_mul_44)

lemma valid_homogeneous_mat_mul:
  assumes "valid_homogeneous A" "valid_homogeneous B"
  shows "valid_homogeneous (mat_mul A B)"
  using assms
  by (simp add: valid_homogeneous_def is44_mat_mul bottom_row_mat_mul rot_block_mat_mul
      orthonormal3_mat_mul det3_mat_mul)

lemma sin_sin_cos_cos [simp]: "sin q * sin q + cos q * cos q = (1::real)"
  using sin_cos_squared_add3 [of q] by (simp only: add.commute)

lemma valid_homogeneous_dh:
  "valid_homogeneous (T12 q)" "valid_homogeneous (T23 q)" "valid_homogeneous (T34 q)"
  "valid_homogeneous (T45 q)" "valid_homogeneous (T56 q)" "valid_homogeneous (T6e q)"
  by (simp_all add: valid_homogeneous_def dh_forms rot_block_44 orthonormal3_def transp_mat_33
      mat_mul_33 det3_33 eye3)

lemma valid_homogeneous_fk_frames: "list_all valid_homogeneous (fk_frames qs)"
  by (simp add: fk_frames_def Let_def valid_homogeneous_dh valid_homogeneous_mat_mul)

text \<open>
  C9. For every joint vector of six reals, every per-joint transform of the table (at any
  angle) and every frame returned by forward kinematics is a valid homogeneous transform:
  4 by 4, bottom row \<open>[0, 0, 0, 1]\<close>, rotation block orthonormal (rows and columns) with
  determinant 1.
\<close>

theorem fk_frames_valid_homogeneous:
  assumes "length qs = 6"
  shows "(\<forall>i<6. \<forall>a. valid_homogeneous ((ts_num ! i) a)) \<and>
         (\<exists>ts. get_fk_solution qs ''full'' = Inr (Full ts) \<and> list_all valid_homogeneous ts) \<and>
         (\<exists>T. get_fk_solution qs ''ee'' = Inr (EE T) \<and> valid_homogeneous T)"
proof -
  from assms have six: "6 \<le> length qs" by simp
  have last: "valid_homogeneous (last (fk_frames qs))"
    using valid_homogeneous_fk_frames [of qs] by (simp add: list_all_iff)
  have "\<forall>i<6. \<forall>a. valid_homogeneous ((ts_num ! i) a)"
    unfolding all_less_6 by (simp add: ts_num_nth valid_homogeneous_dh)
  then show ?thesis
    using valid_homogeneous_fk_frames [of qs] last by (simp add: get_fk_full six get_fk_ee)
qed

theorem fk_frames_valid_homogeneous_witness:
  "length [0, 0, 0, 0, pi / 2, 0 :: real] = 6 \<and>
   (\<exists>T. get_fk_solution [0, 0, 0, 0, pi / 2, 0] ''ee'' = Inr (EE T) \<and> valid_homogeneous T)"
  using fk_frames_valid_homogeneous [of "[0, 0, 0, 0, pi / 2, 0]"] by simp

section \<open>The decomposition\<close>

lemma eps_pos: "0 < eps" and eps_less_1: "eps < 1"
  by (simp_all add: eps_def)

lemma eq_eps_abs_0 [simp]: "eq_eps \<bar>x\<bar> 0 = (\<bar>x\<bar> < eps)"
  by (simp add: eq_eps_def)

lemma eq_eps_0 [simp]: "eq_eps x 0 = (\<bar>x\<bar> < eps)"
  by (simp add: eq_eps_def)

lemma sqrt_sum_squares_pos: "x \<noteq> 0 \<or> y \<noteq> 0 \<Longrightarrow> 0 < sqrt (x\<^sup>2 + y\<^sup>2)" for x y :: real
  by (auto simp: sum_power2_gt_zero_iff)

lemma sqrt_one_plus_quotient:
  fixes x y :: real
  assumes "x \<noteq> 0"
  shows "sqrt (1 + (y / x)\<^sup>2) = sqrt (x\<^sup>2 + y\<^sup>2) / \<bar>x\<bar>"
proof -
  have "1 + (y / x)\<^sup>2 = (x\<^sup>2 + y\<^sup>2) / x\<^sup>2"
    using assms by (simp add: power_divide field_simps)
  then show ?thesis by (simp add: real_sqrt_divide)
qed

lemma cos_sin_arctan_quotient:
  fixes x y :: real
  assumes "x \<noteq> 0"
  shows "cos (arctan (y / x)) = \<bar>x\<bar> / sqrt (x\<^sup>2 + y\<^sup>2)"
    and "sin (arctan (y / x)) = (y / x) * \<bar>x\<bar> / sqrt (x\<^sup>2 + y\<^sup>2)"
  using assms by (simp_all add: cos_arctan sin_arctan sqrt_one_plus_quotient)

lemma cos_arctan2:
  fixes x y :: real
  assumes "x \<noteq> 0 \<or> y \<noteq> 0"
  shows "cos (arctan2 y x) = x / sqrt (x\<^sup>2 + y\<^sup>2)"
proof (cases "x = 0")
  case True
  with assms have "y \<noteq> 0" by simp
  with True show ?thesis by (simp add: arctan2_def)
next
  case False
  then show ?thesis
    by (simp add: arctan2_def cos_sin_arctan_quotient)
qed

lemma sin_arctan2:
  fixes x y :: real
  assumes "x \<noteq> 0 \<or> y \<noteq> 0"
  shows "sin (arctan2 y x) = y / sqrt (x\<^sup>2 + y\<^sup>2)"
proof (cases "x = 0")
  case True
  with assms have "y \<noteq> 0" by simp
  with True show ?thesis
    by (cases "0 < y") (simp_all add: arctan2_def real_sqrt_abs2 field_simps)
next
  case False
  then show ?thesis
    by (simp add: arctan2_def cos_sin_arctan_quotient)
qed

text \<open>Where \<open>cos a3\<close> is not zero but smaller than \<open>eps\<close>, the program takes the branch
  with \<open>sin a3\<close>; both quotients are \<open>sqrt (w00\<^sup>2 + w01\<^sup>2) / m2\<close> there.\<close>

lemma branch_quotients_agree:
  fixes w00 w01 m2 :: real
  assumes m2: "m2 = 1 \<or> m2 = - 1"
    and c: "cos (arctan2 (- w01 * m2) (w00 * m2)) \<noteq> 0"
    and small: "\<bar>cos (arctan2 (- w01 * m2) (w00 * m2))\<bar> < eps"
  shows "w00 / cos (arctan2 (- w01 * m2) (w00 * m2)) = w01 / - sin (arctan2 (- w01 * m2) (w00 * m2))"
proof -
  let ?x = "w00 * m2" and ?y = "- w01 * m2"
  let ?r = "sqrt (?x\<^sup>2 + ?y\<^sup>2)"
  have m2nz: "m2 \<noteq> 0" using m2 by auto
  have x: "?x \<noteq> 0"
  proof
    assume x0: "?x = 0"
    show False
    proof (cases "?y = 0")
      case True
      with x0 have "arctan2 ?y ?x = arctan2 0 0" by (simp only:)
      then have "cos (arctan2 ?y ?x) = 1" by (simp add: arctan2_def)
      with small eps_less_1 show False by simp
    next
      case False
      with x0 have "cos (arctan2 ?y ?x) = 0" by (simp add: cos_arctan2)
      with c show False by simp
    qed
  qed
  then have r: "0 < ?r" by (intro sqrt_sum_squares_pos) simp
  have cos: "cos (arctan2 ?y ?x) = ?x / ?r" and sin: "sin (arctan2 ?y ?x) = ?y / ?r"
    using x by (simp_all add: cos_arctan2 sin_arctan2)
  have y: "?y \<noteq> 0"
  proof
    assume y0: "?y = 0"
    have "?r = sqrt (?x\<^sup>2 + 0\<^sup>2)" by (simp only: y0)
    then have "?r = \<bar>?x\<bar>" by simp
    with cos x have "\<bar>cos (arctan2 ?y ?x)\<bar> = 1" by (simp add: abs_mult)
    with small eps_less_1 show False by simp
  qed
  from x y m2nz have w: "w00 \<noteq> 0" "w01 \<noteq> 0" by auto
  have "w00 / (?x / ?r) = ?r / m2" using w m2nz by (simp add: field_simps)
  moreover have "w01 / - (?y / ?r) = ?r / m2" using w m2nz by (simp add: field_simps)
  ultimately show ?thesis by (simp only: cos sin)
qed

lemma at2_ok: "i < nrows W \<Longrightarrow> j < ncols W \<Longrightarrow> at2 W i j = Inr (W ! i ! j)"
  by (simp add: at2_def)

lemma nrows_ncols_44 [simp]: "is44 T \<Longrightarrow> nrows T = 4" "is44 T \<Longrightarrow> ncols T = 4"
  by (auto simp: is44_def nrows_def ncols_def split: list.splits)

lemma ebind_Inr [simp]: "ebind (Inr x) f = f x"
  by (simp add: ebind_def)

lemma ebind_Inl [simp]: "ebind (Inl e) f = Inl e"
  by (simp add: ebind_def)

lemma go_degenerate:
  assumes "0 < nrows W" "2 < ncols W" "\<bar>W ! 0 ! 2\<bar> < eps"
  shows "go W m2 = Inr [[]]"
  using assms by (simp add: go_def at2_ok)

lemma go_regular:
  assumes shape: "2 < nrows W" "2 < ncols W" and reg: "\<not> \<bar>W ! 0 ! 2\<bar> < eps"
    and m2: "m2 = 1 \<or> m2 = - 1"
  shows "go W m2 = Inr [spec_angles W m2]"
proof -
  let ?a3 = "arctan2 (- (W ! 0 ! 1) * m2) (W ! 0 ! 0 * m2)"
  have at: "at2 W 0 2 = Inr (W ! 0 ! 2)" "at2 W 0 (Suc 0) = Inr (W ! 0 ! Suc 0)"
    "at2 W 0 0 = Inr (W ! 0 ! 0)" "at2 W (Suc 0) 2 = Inr (W ! Suc 0 ! 2)"
    "at2 W 2 2 = Inr (W ! 2 ! 2)"
    using shape by (simp_all add: at2_ok)
  show ?thesis
  proof (cases "\<bar>cos ?a3\<bar> < eps")
    case False
    then have "cos ?a3 \<noteq> 0" using eps_pos by auto
    with False reg show ?thesis
      by (simp add: go_def at spec_angles_def Let_def)
  next
    case True
    show ?thesis
    proof (cases "cos ?a3 = 0")
      case c0: True
      with True reg show ?thesis
        by (simp add: go_def at spec_angles_def Let_def)
    next
      case False
      from branch_quotients_agree [OF m2 False True]
      have "W ! 0 ! 0 / cos ?a3 = W ! 0 ! 1 / - sin ?a3" .
      then have "W ! 0 ! 0 / cos ?a3 = - (W ! 0 ! Suc 0 / sin ?a3)" by simp
      with True False reg show ?thesis
        by (simp add: go_def at spec_angles_def Let_def)
    qed
  qed
qed

lemma prepend_translation_two:
  assumes "2 < nrows W" "3 < ncols W"
  shows "prepend_translation W [a, b] = Inr [translation_of W @ a, translation_of W @ b]"
proof -
  have "at2 W 0 3 = Inr (W ! 0 ! 3)" "at2 W (Suc 0) 3 = Inr (W ! Suc 0 ! 3)"
    "at2 W 2 3 = Inr (W ! 2 ! 3)"
    using assms by (simp_all add: at2_ok)
  then show ?thesis by (simp add: translation_of_def)
qed

lemma decompose_regular_eq:
  assumes shape: "2 < nrows W" "3 < ncols W" and reg: "\<not> \<bar>W ! 0 ! 2\<bar> < eps"
  shows "decompose_transformation W = Inr (spec_decompose W)"
proof -
  have "go W (- 1) = Inr [spec_angles W (- 1)]" "go W 1 = Inr [spec_angles W 1]"
    using shape reg by (simp_all add: go_regular)
  then show ?thesis
    unfolding decompose_transformation_def spec_decompose_def
    by (simp add: prepend_translation_two shape del: prepend_translation.simps)
qed

lemma decompose_degenerate:
  assumes "2 < nrows W" "3 < ncols W" "\<bar>W ! 0 ! 2\<bar> < eps"
  shows "decompose_transformation W = Inr [translation_of W, translation_of W]"
proof -
  have "go W (- 1) = Inr [[]]" "go W 1 = Inr [[]]"
    using assms by (simp_all add: go_degenerate)
  then show ?thesis
    unfolding decompose_transformation_def
    by (simp add: prepend_translation_two assms del: prepend_translation.simps)
qed

lemma length_spec_angles [simp]: "length (spec_angles W m2) = 3"
  by (simp add: spec_angles_def Let_def)

lemma length_translation_of [simp]: "length (translation_of W) = 3"
  by (simp add: translation_of_def)

lemma valid_homogeneous_eye4: "valid_homogeneous (eye 4)"
  by (simp add: valid_homogeneous_def eye4 rot_block_44 orthonormal3_def transp_mat_33
      mat_mul_33 det3_33 eye3)

text \<open>
  C5 (as amended). For every valid homogeneous transform the decomposition returns,
  without an error, a sequence of exactly two elements. Where \<open>|T[0,2]| \<ge> eps\<close> both are
  poses of six reals. Where \<open>|T[0,2]| < eps\<close> each sign branch returns the empty candidate,
  both elements are the translation alone, and the sequence holds no pose.
\<close>

theorem decompose_poses_or_translations:
  assumes "valid_homogeneous T"
  shows "\<exists>ps. decompose_transformation T = Inr ps \<and> length ps = 2 \<and>
           (\<bar>T ! 0 ! 2\<bar> < eps \<longrightarrow>
              go T (- 1) = Inr [[]] \<and> go T 1 = Inr [[]] \<and>
              ps = [translation_of T, translation_of T] \<and>
              filter (\<lambda>p. length p = 6) ps = []) \<and>
           (eps \<le> \<bar>T ! 0 ! 2\<bar> \<longrightarrow> list_all (\<lambda>p. length p = 6) ps)"
proof -
  from assms have T: "is44 T" by (simp add: valid_homogeneous_def)
  show ?thesis
  proof (cases "\<bar>T ! 0 ! 2\<bar> < eps")
    case True
    with T show ?thesis by (simp add: decompose_degenerate go_degenerate)
  next
    case False
    with T show ?thesis by (simp add: decompose_regular_eq spec_decompose_def)
  qed
qed

theorem decompose_poses_or_translations_witness:
  "valid_homogeneous (eye 4) \<and> \<bar>eye 4 ! 0 ! 2\<bar> < eps \<and>
   go (eye 4) (- 1) = Inr [[]] \<and> go (eye 4) 1 = Inr [[]] \<and>
   decompose_transformation (eye 4) = Inr [[0, 0, 0], [0, 0, 0]]"
  using decompose_poses_or_translations [OF valid_homogeneous_eye4] valid_homogeneous_eye4
  by (simp add: eye4 eps_def translation_of_def)

text \<open>
  C5 as stated fails: the identity is a valid homogeneous transform, and its
  decomposition holds two translations of three reals and no pose.
\<close>

theorem decompose_identity_counterexample:
  "valid_homogeneous (eye 4) \<and>
   decompose_transformation (eye 4) = Inr [[0, 0, 0], [0, 0, 0]] \<and>
   length [0, 0, 0 :: real] \<noteq> 6"
  using valid_homogeneous_eye4
  by (simp add: decompose_degenerate eye4 nrows_def ncols_def eps_def translation_of_def)

text \<open>
  C10. For every 4 by 4 transform the decomposition returns exactly two candidates; where
  \<open>|T[0,2]| < eps\<close> each is the 3-element translation, otherwise each has 6 elements
  that start with the translation.
\<close>

theorem decompose_two_candidates:
  assumes "is44 T"
  shows "\<exists>c1 c2. decompose_transformation T = Inr [c1, c2] \<and>
           (if \<bar>T ! 0 ! 2\<bar> < eps
            then c1 = translation_of T \<and> c2 = translation_of T \<and> length c1 = 3 \<and> length c2 = 3
            else length c1 = 6 \<and> length c2 = 6 \<and>
                 take 3 c1 = translation_of T \<and> take 3 c2 = translation_of T)"
proof (cases "\<bar>T ! 0 ! 2\<bar> < eps")
  case True
  with assms show ?thesis by (simp add: decompose_degenerate)
next
  case False
  with assms show ?thesis by (simp add: decompose_regular_eq spec_decompose_def)
qed

theorem decompose_two_candidates_witness:
  "is44 (eye 4) \<and> decompose_transformation (eye 4) = Inr [[0, 0, 0], [0, 0, 0]] \<and>
   is44 [[0, 0, 1, 4], [0, - 1, 0, 0], [1, 0, 0, 2], [0, 0, 0, 1]] \<and>
   (\<exists>c1 c2. decompose_transformation [[0, 0, 1, 4], [0, - 1, 0, 0], [1, 0, 0, 2], [0, 0, 0, 1]] =
        Inr [c1, c2] \<and> length c1 = 6 \<and> length c2 = 6 \<and> take 3 c1 = [4, 0, 2] \<and> take 3 c2 = [4, 0, 2])"
  using decompose_two_candidates [of "eye 4"]
    decompose_two_candidates [of "[[0, 0, 1, 4], [0, - 1, 0, 0], [1, 0, 0, 2], [0, 0, 0, 1]]"]
  by (simp add: eye4 eps_def translation_of_def)

section \<open>The decomposition over an arithmetic\<close>

lemma go_fl_exact: "go_fl exact_arith W m2 = go W (of_int m2)"
  by (simp add: go_fl_def go_def exact_arith_def eq_zero_fl_def eq_eps_def Let_def cong: if_cong)

lemma decompose_fl_exact: "decompose_fl exact_arith W = decompose_transformation W"
  by (simp add: decompose_fl_def decompose_transformation_def go_fl_exact)

lemma go_fl_regular:
  assumes shape: "2 < nrows W" "2 < ncols W"
    and reg: "\<not> eq_zero_fl A (fl_abs A (W ! 0 ! 2))"
  shows "go_fl A W m2 = Inr [angles_eps_test A W m2]"
proof -
  have at: "at2 W 0 2 = Inr (W ! 0 ! 2)" "at2 W 0 (Suc 0) = Inr (W ! 0 ! Suc 0)"
    "at2 W 0 0 = Inr (W ! 0 ! 0)" "at2 W (Suc 0) 2 = Inr (W ! Suc 0 ! 2)"
    "at2 W 2 2 = Inr (W ! 2 ! 2)"
    using shape by (simp_all add: at2_ok)
  show ?thesis
    using reg by (simp add: go_fl_def at angles_eps_test_def a3_fl_def a1_fl_def Let_def)
qed

lemma decompose_fl_regular_eq:
  assumes shape: "2 < nrows W" "3 < ncols W"
    and reg: "\<not> eq_zero_fl A (fl_abs A (W ! 0 ! 2))"
  shows "decompose_fl A W =
           Inr [translation_of W @ angles_eps_test A W (- 1),
                translation_of W @ angles_eps_test A W 1]"
proof -
  have "go_fl A W (- 1) = Inr [angles_eps_test A W (- 1)]"
    "go_fl A W 1 = Inr [angles_eps_test A W 1]"
    using shape reg by (simp_all add: go_fl_regular)
  then show ?thesis
    unfolding decompose_fl_def
    by (simp add: prepend_translation_two shape del: prepend_translation.simps)
qed

lemma double_arith_sel [simp]:
  "fl_of_int double_arith = of_int" "fl_eps double_arith = eps" "fl_neg double_arith = uminus"
  "fl_sub double_arith = (-)" "fl_mul double_arith = (*)" "fl_div double_arith = (/)"
  "fl_abs double_arith = abs" "fl_less double_arith = (<)" "fl_cos double_arith = cos_double"
  "fl_sin double_arith = sin" "fl_arctan2 double_arith = arctan2"
  by (simp_all add: double_arith_def exact_arith_def)

lemma eq_zero_fl_double [simp]: "eq_zero_fl double_arith a = (\<bar>a\<bar> < eps)"
  by (simp add: eq_zero_fl_def)

lemma cos_double_half_pi [simp]:
  "cos_double (pi / 2) = 6123233995736766 / 10 ^ 32"
  "cos_double (- (pi / 2)) = 6123233995736766 / 10 ^ 32"
  by (simp_all add: cos_double_def)

lemma valid_homogeneous_example: "valid_homogeneous example_frame"
  by (simp add: example_frame_def valid_homogeneous_def rot_block_44 orthonormal3_def
      transp_mat_33 mat_mul_33 det3_33 eye3)

lemma example_frame_regular:
  "\<not> eq_zero_fl double_arith (fl_abs double_arith (example_frame ! 0 ! 2))"
  by (simp add: example_frame_def eps_def)

lemma angles_eps_test_example:
  "angles_eps_test double_arith example_frame (- 1) =
     [a1_fl double_arith example_frame (arctan (- (3 / 4)) + pi), arctan (- (3 / 4)) + pi,
      - (pi / 2)]"
  "angles_eps_test double_arith example_frame 1 =
     [a1_fl double_arith example_frame (arctan (3 / 4)), arctan (3 / 4), pi / 2]"
  by (simp_all add: angles_eps_test_def a3_fl_def Let_def arctan2_def eps_def example_frame_def)

lemma angles_zero_test_example:
  "angles_zero_test double_arith example_frame (- 1) =
     [a1_fl double_arith example_frame (pi / 2), pi / 2, - (pi / 2)]"
  "angles_zero_test double_arith example_frame 1 =
     [a1_fl double_arith example_frame (pi / 2), pi / 2, pi / 2]"
  by (simp_all add: angles_zero_test_def a3_fl_def Let_def arctan2_def example_frame_def)

lemma translation_of_example: "translation_of example_frame = [0, 0, 0]"
  by (simp add: translation_of_def example_frame_def)

text \<open>
  C4 (as amended). For every 4 by 4 transform \<open>T\<close> that is not degenerate (\<open>eq(|T[0,2]|, 0)\<close>
  is false, that is \<open>|T[0,2]| \<ge> eps\<close>), and for every arithmetic, the decomposition is
  the list of two poses, branch \<open>m2 = -1\<close> first, each the translation
  \<open>(T[0,3], T[1,3], T[2,3])\<close> followed by the angle triple of its branch:
  \<open>a3 = atan2(-T[0,1] m2, T[0,0] m2)\<close>; \<open>a2 = atan2(T[0,2], T[0,0] / cos a3)\<close> if
  \<open>eq(cos a3, 0)\<close> is false (\<open>|cos a3| \<ge> eps\<close>), else \<open>a2 = atan2(T[0,2], T[0,1] / -sin a3)\<close>;
  \<open>a1 = atan2(-T[1,2] / cos a2, T[2,2] / cos a2)\<close>.
\<close>

theorem decompose_fl_regular:
  assumes "is44 T" and "\<not> eq_zero_fl A (fl_abs A (T ! 0 ! 2))"
  shows "decompose_fl A T =
           Inr [translation_of T @ angles_eps_test A T (- 1),
                translation_of T @ angles_eps_test A T 1]"
proof -
  from assms(1) have "2 < nrows T" "3 < ncols T" by simp_all
  then show ?thesis using assms(2) by (rule decompose_fl_regular_eq)
qed

theorem decompose_fl_regular_witness:
  "is44 example_frame \<and>
   \<not> eq_zero_fl double_arith (fl_abs double_arith (example_frame ! 0 ! 2)) \<and>
   decompose_fl double_arith example_frame =
     Inr [[0, 0, 0, a1_fl double_arith example_frame (arctan (- (3 / 4)) + pi),
           arctan (- (3 / 4)) + pi, - (pi / 2)],
          [0, 0, 0, a1_fl double_arith example_frame (arctan (3 / 4)), arctan (3 / 4), pi / 2]]"
proof -
  have shape: "is44 example_frame" by (simp add: example_frame_def)
  from decompose_fl_regular [OF shape example_frame_regular] shape example_frame_regular
  show ?thesis
    by (simp add: angles_eps_test_example translation_of_example)
qed

text \<open>
  C4 as stated fails for numpy's doubles: at \<open>example_frame\<close> the branch \<open>m2 = -1\<close> has
  \<open>a3 = -\<pi>/2\<close>, the cosine of its double is \<open>6.1e-17\<close>, not zero, and the test
  \<open>cos a3 \<noteq> 0\<close> of the claim selects \<open>a2 = atan2(T[0,2], T[0,0] / cos a3) = \<pi>/2\<close>, while the
  program, whose test is \<open>eq(cos a3, 0)\<close>, returns
  \<open>a2 = atan2(T[0,2], T[0,1] / -sin a3) = atan(-3/4) + \<pi>\<close>.
\<close>

theorem decompose_zero_test_counterexample:
  "example_frame =
     [[0, - (4 / 5), 3 / 5, 0], [3 / 5, 12 / 25, 16 / 25, 0], [- (4 / 5), 9 / 25, 12 / 25, 0],
      [0, 0, 0, 1]] \<and>
   valid_homogeneous example_frame \<and>
   \<not> eq_zero_fl double_arith (fl_abs double_arith (example_frame ! 0 ! 2)) \<and>
   angles_eps_test double_arith example_frame (- 1) ! 1 = arctan (- (3 / 4)) + pi \<and>
   angles_zero_test double_arith example_frame (- 1) ! 1 = pi / 2 \<and>
   arctan (- (3 / 4)) + pi \<noteq> pi / 2 \<and>
   decompose_fl double_arith example_frame \<noteq>
     Inr [translation_of example_frame @ angles_zero_test double_arith example_frame (- 1),
          translation_of example_frame @ angles_zero_test double_arith example_frame 1]"
proof -
  have ne: "arctan (- (3 / 4)) + pi \<noteq> pi / 2"
    using arctan_lbound [of "- (3 / 4)"] by simp
  have shape: "2 < nrows example_frame" "3 < ncols example_frame"
    by (simp_all add: example_frame_def nrows_def ncols_def)
  have dec: "decompose_fl double_arith example_frame =
     Inr [translation_of example_frame @ angles_eps_test double_arith example_frame (- 1),
          translation_of example_frame @ angles_eps_test double_arith example_frame 1]"
    using shape example_frame_regular by (rule decompose_fl_regular_eq)
  have differ: "decompose_fl double_arith example_frame \<noteq>
     Inr [translation_of example_frame @ angles_zero_test double_arith example_frame (- 1),
          translation_of example_frame @ angles_zero_test double_arith example_frame 1]"
    using ne
    by (simp add: dec angles_eps_test_example angles_zero_test_example translation_of_example)
  show ?thesis
    using ne differ valid_homogeneous_example example_frame_regular
    by (simp add: angles_eps_test_example angles_zero_test_example) (simp add: example_frame_def)
qed

section \<open>Inputs of another shape\<close>

lemma fk_step_length: "fk_step i ts = Inr ts' \<Longrightarrow> length ts' = length ts"
  by (auto simp: fk_step_def split: if_splits)

lemma fk_loop_short:
  "\<exists>i\<in>set is. length ts \<le> i + 1 \<Longrightarrow> fk_loop is ts = Inl IndexError"
proof (induction "is" arbitrary: ts)
  case Nil
  then show ?case by simp
next
  case (Cons i "is")
  show ?case
  proof (cases "fk_step i ts")
    case (Inl e)
    then have "e = IndexError" by (auto simp: fk_step_def split: if_splits)
    with Inl show ?thesis by simp
  next
    case (Inr ts')
    then have len: "length ts' = length ts" by (rule fk_step_length)
    from Inr have "\<not> length ts \<le> i + 1" by (auto simp: fk_step_def split: if_splits)
    with Cons.prems have "\<exists>j\<in>set is. length ts' \<le> j + 1" by (auto simp: len)
    then have "fk_loop is ts' = Inl IndexError" by (rule Cons.IH)
    with Inr show ?thesis by simp
  qed
qed

lemma get_fk_short:
  assumes "length qs < 6"
  shows "get_fk_solution qs flag = Inl IndexError"
proof -
  let ?ts = "map (\<lambda>(t, q). t q) (zip ts_num qs)"
  have len: "length ?ts = length qs"
    using assms by (simp add: ts_num_def get_dh_def)
  have "length qs - 1 \<in> set [0..<n_joints - 1]" "length ?ts \<le> (length qs - 1) + 1"
    using assms by (simp_all add: n_joints_def len del: length_map)
  then have "fk_loop [0..<n_joints - 1] ?ts = Inl IndexError"
    by (intro fk_loop_short) blast
  then show ?thesis by (simp add: get_fk_solution_def)
qed

lemma fk_frames_take: "6 \<le> length qs \<Longrightarrow> fk_frames (take 6 qs) = fk_frames qs"
  by (simp add: fk_frames_def)

lemma get_fk_long:
  assumes "6 \<le> length qs"
  shows "get_fk_solution qs flag = get_fk_solution (take 6 qs) flag"
    and "\<exists>r. get_fk_solution qs flag = Inr r"
proof -
  have *: "get_fk_solution qs flag =
      (if flag = ''ee'' then Inr (EE (last (fk_frames qs)))
       else if flag = ''full'' then Inr (Full (fk_frames qs)) else Inr NoneResult)"
    if "6 \<le> length qs" for qs
    unfolding get_fk_solution_def by (simp only: fk_loop_frames [OF that]) simp
  from assms have "6 \<le> length (take 6 qs)" by simp
  from * [OF this] * [OF assms] show "get_fk_solution qs flag = get_fk_solution (take 6 qs) flag"
    by (simp only: fk_frames_take [OF assms])
  from * [OF assms] show "\<exists>r. get_fk_solution qs flag = Inr r" by simp
qed

lemma decompose_small:
  assumes "nrows W < 3 \<or> ncols W < 4"
  shows "decompose_transformation W = Inl IndexError"
proof (cases "0 < nrows W \<and> 2 < ncols W")
  case False
  then have "at2 W 0 2 = Inl IndexError" by (auto simp: at2_def)
  then show ?thesis by (simp add: decompose_transformation_def go_def)
next
  case shape: True
  show ?thesis
  proof (cases "\<bar>W ! 0 ! 2\<bar> < eps")
    case True
    with shape have go: "go W (- 1) = Inr [[]]" "go W 1 = Inr [[]]"
      by (simp_all add: go_degenerate)
    from assms have "at2 W 0 3 = Inl IndexError \<or> at2 W (Suc 0) 3 = Inl IndexError \<or> at2 W 2 3 = Inl IndexError"
      by (auto simp: at2_def)
    then show ?thesis
      by (auto simp: decompose_transformation_def go at2_def)
  next
    case False
    show ?thesis
    proof (cases "2 < nrows W")
      case True
      with shape False have go: "go W (- 1) = Inr [spec_angles W (- 1)]" "go W 1 = Inr [spec_angles W 1]"
        by (simp_all add: go_regular)
      from True assms have "at2 W 0 3 = Inl IndexError" by (auto simp: at2_def)
      then show ?thesis by (simp add: decompose_transformation_def go)
    next
      case few: False
      then have "at2 W (Suc 0) 2 = Inl IndexError \<or> at2 W 2 2 = Inl IndexError"
        by (auto simp: at2_def)
      moreover from shape have "at2 W 0 2 = Inr (W ! 0 ! 2)" "at2 W 0 (Suc 0) = Inr (W ! 0 ! Suc 0)"
        "at2 W 0 0 = Inr (W ! 0 ! 0)"
        by (simp_all add: at2_ok)
      ultimately have "go W (- 1) = Inl IndexError"
        using False by (auto simp: go_def Let_def at2_def)
      then show ?thesis by (simp add: decompose_transformation_def)
    qed
  qed
qed

lemma decompose_large:
  assumes "3 \<le> nrows W" "4 \<le> ncols W"
  shows "\<exists>ps. decompose_transformation W = Inr ps"
proof (cases "\<bar>W ! 0 ! 2\<bar> < eps")
  case True
  with assms show ?thesis by (simp add: decompose_degenerate)
next
  case False
  with assms show ?thesis by (simp add: decompose_regular_eq)
qed

text \<open>
  C8 (as amended). Neither operation checks the shape of its input. Forward kinematics
  raises IndexError exactly when the joint vector has fewer than six entries; a longer
  vector is accepted and gives the result of its first six entries. The decomposition
  raises IndexError exactly when the array has fewer than three rows or fewer than four
  columns; any larger array is accepted.
\<close>

theorem shape_errors:
  "(length qs < 6 \<longrightarrow> get_fk_solution qs flag = Inl IndexError) \<and>
   (6 \<le> length qs \<longrightarrow>
      get_fk_solution qs flag = get_fk_solution (take 6 qs) flag \<and>
      (\<exists>r. get_fk_solution qs flag = Inr r)) \<and>
   (nrows W < 3 \<or> ncols W < 4 \<longrightarrow> decompose_transformation W = Inl IndexError) \<and>
   (3 \<le> nrows W \<and> 4 \<le> ncols W \<longrightarrow> (\<exists>ps. decompose_transformation W = Inr ps))"
  using get_fk_short [of qs flag] get_fk_long [of qs flag] decompose_small [of W]
    decompose_large [of W]
  by blast

theorem shape_errors_witness:
  "length [0, 0, 0 :: real] < 6 \<and> get_fk_solution [0, 0, 0] ''ee'' = Inl IndexError \<and>
   6 \<le> length [0, 0, 0, 0, 0, 0, 1 :: real] \<and>
   get_fk_solution [0, 0, 0, 0, 0, 0, 1] ''ee'' = get_fk_solution [0, 0, 0, 0, 0, 0] ''ee'' \<and>
   ncols [[1, 0, 0], [0, 1, 0], [0, 0, 1]] < 4 \<and>
   decompose_transformation [[1, 0, 0], [0, 1, 0], [0, 0, 1]] = Inl IndexError"
  using shape_errors [of "[0, 0, 0]" "''ee''" "[[1, 0, 0], [0, 1, 0], [0, 0, 1]]"]
    shape_errors [of "[0, 0, 0, 0, 0, 0, 1]" "''ee''" "[[1, 0, 0], [0, 1, 0], [0, 0, 1]]"]
  by (simp add: nrows_def ncols_def)

text \<open>
  C8 as stated fails: a joint vector of seven entries and a 3 by 4 array are of invalid
  shape, and both operations return a result for them.
\<close>

theorem invalid_shapes_accepted_counterexample:
  "get_fk_solution [0, 0, 0, 0, 0, 0, 1] ''ee'' =
     Inr (EE [[0, 0, 1, 4], [0, - 1, 0, 0], [1, 0, 0, 2], [0, 0, 0, 1]]) \<and>
   decompose_transformation [[1, 0, 0, 5], [0, 1, 0, 6], [0, 0, 1, 7]] =
     Inr [[5, 6, 7], [5, 6, 7]]"
proof -
  have "fk_frames [0, 0, 0, 0, 0, 0, 1] = fk_frames [0, 0, 0, 0, 0, 0]"
    using fk_frames_take [of "[0, 0, 0, 0, 0, 0, 1]"] by simp
  then have "get_fk_solution [0, 0, 0, 0, 0, 0, 1] ''ee'' =
     Inr (EE [[0, 0, 1, 4], [0, - 1, 0, 0], [1, 0, 0, 2], [0, 0, 0, 1]])"
    by (simp add: get_fk_ee fk_frames_zero)
  moreover have "decompose_transformation [[1, 0, 0, 5], [0, 1, 0, 6], [0, 0, 1, 7]] =
     Inr [[5, 6, 7], [5, 6, 7]]"
    by (simp add: decompose_degenerate nrows_def ncols_def eps_def translation_of_def)
  ultimately show ?thesis by simp
qed

section \<open>The Jacobian of a frame list\<close>

lemma zeros_6_6:
  "zeros n_joints n_joints =
     [[0, 0, 0, 0, 0, 0], [0, 0, 0, 0, 0, 0], [0, 0, 0, 0, 0, 0],
      [0, 0, 0, 0, 0, 0], [0, 0, 0, 0, 0, 0], [0, 0, 0, 0, 0, 0]]"
  by (simp add: zeros_def n_joints_def numeral_eq_Suc)

lemma length_jac_column [simp]: "length (jac_column F ee) = 6"
  by (simp add: jac_column_def cross_product_def z_axis_of_def)

lemma jacobian_step_44:
  assumes "i < length fks" "is44 (fks ! i)" "is44 ee"
  shows "jacobian_step fks ee i [r0, r1, r2, r3, r4, r5] =
     Inr [r0[i := jac_column (fks ! i) ee ! 0], r1[i := jac_column (fks ! i) ee ! 1],
          r2[i := jac_column (fks ! i) ee ! 2], r3[i := jac_column (fks ! i) ee ! 3],
          r4[i := jac_column (fks ! i) ee ! 4], r5[i := jac_column (fks ! i) ee ! 5]]"
proof -
  from assms(2) obtain a00 a01 a02 a03 a10 a11 a12 a13 a20 a21 a22 a23 a30 a31 a32 a33 where
    F: "fks ! i = [[a00, a01, a02, a03], [a10, a11, a12, a13], [a20, a21, a22, a23], [a30, a31, a32, a33]]"
    by (rule is44_form)
  from assms(3) obtain b00 b01 b02 b03 b10 b11 b12 b13 b20 b21 b22 b23 b30 b31 b32 b33 where
    E: "ee = [[b00, b01, b02, b03], [b10, b11, b12, b13], [b20, b21, b22, b23], [b30, b31, b32, b33]]"
    by (rule is44_form)
  show ?thesis
    using assms(1)
    by (simp add: jacobian_step_def F E slice3_col_def ncols_def np_sub_def cross_def
        set_rows_col_def jac_column_def cross_product_def z_axis_of_def translation_of_def)
qed

lemma list_of_length_6:
  assumes "length xs = 6"
  obtains a b c d e f where "xs = [a, b, c, d, e, f]"
proof -
  from assms have "\<exists>a b c d e f. xs = [a, b, c, d, e, f]"
    by (auto simp: length_Suc_conv numeral_eq_Suc)
  then show thesis using that by blast
qed

lemma is44_base_default [simp]: "is44 base_default"
  by (simp add: base_default_eye4)

lemma jacobian_of_frames:
  assumes len: "length frames = 6" and shape: "list_all is44 frames"
  shows "\<exists>J. jacobian frames = Inr J \<and> nrows J = 6 \<and> ncols J = 6 \<and>
           (\<forall>i<6. column J i = jac_column ((base_default # frames) ! i) (last frames))"
proof -
  from len obtain F1 F2 F3 F4 F5 F6 where frames: "frames = [F1, F2, F3, F4, F5, F6]"
    by (rule list_of_length_6)
  with shape have F: "is44 F1" "is44 F2" "is44 F3" "is44 F4" "is44 F5" "is44 F6"
    by simp_all
  let ?c = "\<lambda>F. jac_column F F6"
  have loop: "jacobian_loop [base_default, F1, F2, F3, F4, F5, F6] F6 [0..<6] (zeros n_joints n_joints) =
      Inr [[?c base_default ! 0, ?c F1 ! 0, ?c F2 ! 0, ?c F3 ! 0, ?c F4 ! 0, ?c F5 ! 0],
           [?c base_default ! 1, ?c F1 ! 1, ?c F2 ! 1, ?c F3 ! 1, ?c F4 ! 1, ?c F5 ! 1],
           [?c base_default ! 2, ?c F1 ! 2, ?c F2 ! 2, ?c F3 ! 2, ?c F4 ! 2, ?c F5 ! 2],
           [?c base_default ! 3, ?c F1 ! 3, ?c F2 ! 3, ?c F3 ! 3, ?c F4 ! 3, ?c F5 ! 3],
           [?c base_default ! 4, ?c F1 ! 4, ?c F2 ! 4, ?c F3 ! 4, ?c F4 ! 4, ?c F5 ! 4],
           [?c base_default ! 5, ?c F1 ! 5, ?c F2 ! 5, ?c F3 ! 5, ?c F4 ! 5, ?c F5 ! 5]]"
    unfolding zeros_6_6
    by (simp add: upt_rec jacobian_step_44 F)
  have six: "xs = [xs ! 0, xs ! Suc 0, xs ! 2, xs ! 3, xs ! 4, xs ! 5]" if "length xs = 6" for xs :: vec
    using that by (rule list_of_length_6) simp
  have cols: "[?c G ! 0, ?c G ! Suc 0, ?c G ! 2, ?c G ! 3, ?c G ! 4, ?c G ! 5] = ?c G" for G
    using six [of "?c G"] by (simp del: One_nat_def)
  show ?thesis
    unfolding jacobian_def Let_def all_less_6
    by (simp add: frames loop nrows_def ncols_def column_def cols del: upt_Suc)
qed

lemma is44_fk_frames: "list_all is44 (fk_frames qs)"
  using valid_homogeneous_fk_frames [of qs]
  by (simp add: list_all_iff valid_homogeneous_def)

lemma jac_column_parts:
  "take 3 (jac_column F ee) =
     cross_product (z_axis_of F) (map2 (-) (translation_of ee) (translation_of F))"
  "drop 3 (jac_column F ee) = z_axis_of F"
  by (simp_all add: jac_column_def cross_product_def)

lemma jacobian_at_zero:
  "jacobian (fk_frames [0, 0, 0, 0, 0, 0]) =
     Inr [[0, - 1, - 1, 0, 0, 0], [4, 0, 0, 2, 0, 0], [0, 4, 3, 0, - 2, 0],
          [0, 0, 0, 0, 0, 1], [0, - 1, - 1, 0, 1, 0], [1, 0, 0, 1, 0, 0]]"
  unfolding fk_frames_zero jacobian_def Let_def zeros_6_6
  by (simp add: upt_rec jacobian_step_def base_default_eye4 slice3_col_def ncols_def np_sub_def
      cross_def set_rows_col_def)

text \<open>
  C3. For the frame list of a joint vector of six reals, with the identity base frame put
  in front, the Jacobian is a 6 by 6 array whose column \<open>i\<close> holds, in rows 0 to 2, the
  cross product of the axis \<open>z\<^sub>i\<close> (third column of the rotation block of frame \<open>i\<close>) with
  \<open>o\<^sub>e\<^sub>e - o\<^sub>i\<close> (the end-effector translation minus the translation of frame \<open>i\<close>), and, in
  rows 3 to 5, \<open>z\<^sub>i\<close> itself.
\<close>

theorem jacobian_columns:
  assumes "length qs = 6"
  shows "\<exists>frames J. get_fk_solution qs ''full'' = Inr (Full frames) \<and>
           jacobian frames = Inr J \<and> nrows J = 6 \<and> ncols J = 6 \<and>
           (\<forall>i<6. take 3 (column J i) =
                     cross_product (z_axis_of ((base_default # frames) ! i))
                       (map2 (-) (translation_of (last frames))
                          (translation_of ((base_default # frames) ! i))) \<and>
                   drop 3 (column J i) = z_axis_of ((base_default # frames) ! i))"
proof -
  from assms have six: "6 \<le> length qs" by simp
  obtain J where J: "jacobian (fk_frames qs) = Inr J" "nrows J = 6" "ncols J = 6"
    "\<forall>i<6. column J i = jac_column ((base_default # fk_frames qs) ! i) (last (fk_frames qs))"
    using jacobian_of_frames [OF fk_frames_length is44_fk_frames, of qs] by blast
  from J(4) have "\<forall>i<6. take 3 (column J i) =
                     cross_product (z_axis_of ((base_default # fk_frames qs) ! i))
                       (map2 (-) (translation_of (last (fk_frames qs)))
                          (translation_of ((base_default # fk_frames qs) ! i))) \<and>
                   drop 3 (column J i) = z_axis_of ((base_default # fk_frames qs) ! i)"
    by (simp add: jac_column_parts)
  with J(1-3) get_fk_full [OF six] show ?thesis by blast
qed

theorem jacobian_columns_witness:
  "length [0, 0, 0, 0, 0, 0 :: real] = 6 \<and>
   (\<exists>frames J. get_fk_solution [0, 0, 0, 0, 0, 0] ''full'' = Inr (Full frames) \<and>
      jacobian frames = Inr J \<and>
      J = [[0, - 1, - 1, 0, 0, 0], [4, 0, 0, 2, 0, 0], [0, 4, 3, 0, - 2, 0],
           [0, 0, 0, 0, 0, 1], [0, - 1, - 1, 0, 1, 0], [1, 0, 0, 1, 0, 0]] \<and>
      take 3 (column J 0) =
        cross_product (z_axis_of base_default)
          (map2 (-) (translation_of (last frames)) (translation_of base_default)) \<and>
      drop 3 (column J 0) = z_axis_of base_default \<and>
      take 3 (column J 5) =
        cross_product (z_axis_of (frames ! 4))
          (map2 (-) (translation_of (last frames)) (translation_of (frames ! 4))) \<and>
      drop 3 (column J 5) = z_axis_of (frames ! 4))"
proof -
  from jacobian_columns [of "[0, 0, 0, 0, 0, 0]"]
  obtain frames J where *: "get_fk_solution [0, 0, 0, 0, 0, 0] ''full'' = Inr (Full frames)"
    "jacobian frames = Inr J"
    "\<forall>i<6. take 3 (column J i) =
                     cross_product (z_axis_of ((base_default # frames) ! i))
                       (map2 (-) (translation_of (last frames))
                          (translation_of ((base_default # frames) ! i))) \<and>
                   drop 3 (column J i) = z_axis_of ((base_default # frames) ! i)"
    by auto
  from *(1) have frames: "frames = fk_frames [0, 0, 0, 0, 0, 0]" by (simp add: get_fk_full)
  with *(2) have J: "J = [[0, - 1, - 1, 0, 0, 0], [4, 0, 0, 2, 0, 0], [0, 4, 3, 0, - 2, 0],
           [0, 0, 0, 0, 0, 1], [0, - 1, - 1, 0, 1, 0], [1, 0, 0, 1, 0, 0]]"
    by (simp add: jacobian_at_zero)
  from *(3) have "take 3 (column J 0) =
        cross_product (z_axis_of ((base_default # frames) ! 0))
          (map2 (-) (translation_of (last frames)) (translation_of ((base_default # frames) ! 0))) \<and>
      drop 3 (column J 0) = z_axis_of ((base_default # frames) ! 0)"
    by (simp only: all_less_6)
  moreover from *(3) have "take 3 (column J 5) =
        cross_product (z_axis_of ((base_default # frames) ! 5))
          (map2 (-) (translation_of (last frames)) (translation_of ((base_default # frames) ! 5))) \<and>
      drop 3 (column J 5) = z_axis_of ((base_default # frames) ! 5)"
    by (simp only: all_less_6)
  ultimately have "take 3 (column J 0) =
        cross_product (z_axis_of base_default)
          (map2 (-) (translation_of (last frames)) (translation_of base_default)) \<and>
      drop 3 (column J 0) = z_axis_of base_default \<and>
      take 3 (column J 5) =
        cross_product (z_axis_of (frames ! 4))
          (map2 (-) (translation_of (last frames)) (translation_of (frames ! 4))) \<and>
      drop 3 (column J 5) = z_axis_of (frames ! 4)"
    by simp
  moreover have "length [0, 0, 0, 0, 0, 0 :: real] = 6" by simp
  ultimately show ?thesis using *(1,2) J by blast
qed

section \<open>The vector field\<close>

lemma k_gain_value: "k_gain = 1 / 1000"
  by (simp add: k_gain_def tf_def t0_def n_steps_def)

lemma fk_frames_degenerate:
  "last (fk_frames [0, 0, 0, 0, pi / 2, 0]) = [[1, 0, 0, 2], [0, - 1, 0, 0], [0, 0, - 1, 0], [0, 0, 0, 1]]"
  by (simp add: fk_frames_def Let_def dh_forms mat_mul_44)

lemma state_space_unfold:
  assumes q: "6 \<le> length q" and J: "jacobian (fk_frames q) = Inr J"
    and c: "decompose_transformation (last (fk_frames q)) = Inr (c1 # cs)"
  shows "state_space x1 q t =
           ebind (np_sub x1 c1) (\<lambda>d. mat_vec J (map (\<lambda>x. x * k_gain) d))"
  by (simp add: state_space_def get_fk_full [OF q] J c)

text \<open>
  C1 (as amended). For every joint vector of six reals whose end-effector frame \<open>T\<close> has
  \<open>|T[0,2]| \<ge> eps\<close>, every target pose of six reals and every time \<open>t\<close>, the vector field
  returns \<open>J \<cdot> \<Delta>\<close>: \<open>J\<close> the Jacobian of the frames of \<open>q\<close>, \<open>\<Delta>\<close> the target pose minus the
  first candidate of the decomposition of \<open>T\<close>, times \<open>k = 10 / 10000 = 0.001\<close>, which does
  not depend on \<open>t\<close>.
\<close>

theorem state_space_regular:
  assumes "length q = 6" and "length x1 = 6"
    and "get_fk_solution q ''ee'' = Inr (EE T)" and "eps \<le> \<bar>T ! 0 ! 2\<bar>"
  shows "\<exists>frames J cands.
           get_fk_solution q ''full'' = Inr (Full frames) \<and> jacobian frames = Inr J \<and>
           last frames = T \<and> decompose_transformation T = Inr cands \<and> cands \<noteq> [] \<and>
           state_space x1 q t =
             Inr (map (\<lambda>row. dotp row (map (\<lambda>d. d * k_gain) (map2 (-) x1 (hd cands)))) J) \<and>
           k_gain = 1 / 1000"
proof -
  from assms(1) have six: "6 \<le> length q" by simp
  from assms(3) have T: "T = last (fk_frames q)" by (simp add: get_fk_ee [OF six])
  have T44: "is44 T"
    using is44_fk_frames [of q] unfolding T by (simp add: list_all_iff)
  obtain J where J: "jacobian (fk_frames q) = Inr J" "ncols J = 6"
    using jacobian_of_frames [OF fk_frames_length is44_fk_frames, of q] by blast
  have dec: "decompose_transformation T = Inr (spec_decompose T)"
    using T44 assms(4) by (simp add: decompose_regular_eq)
  let ?c1 = "translation_of T @ spec_angles T (- 1)"
  have "state_space x1 q t = ebind (np_sub x1 ?c1) (\<lambda>d. mat_vec J (map (\<lambda>x. x * k_gain) d))"
    using dec by (intro state_space_unfold [OF six J(1)]) (simp add: T spec_decompose_def)
  also have "\<dots> = Inr (map (\<lambda>row. dotp row (map (\<lambda>d. d * k_gain) (map2 (-) x1 ?c1))) J)"
    using assms(2) J(2) by (simp add: np_sub_def mat_vec_def)
  finally have "state_space x1 q t =
      Inr (map (\<lambda>row. dotp row (map (\<lambda>d. d * k_gain) (map2 (-) x1 (hd (spec_decompose T))))) J)"
    by (simp add: spec_decompose_def)
  with J(1) dec get_fk_full [OF six] T k_gain_value show ?thesis
    by (intro exI [of _ "fk_frames q"] exI [of _ J] exI [of _ "spec_decompose T"])
      (simp add: spec_decompose_def)
qed

theorem state_space_regular_witness:
  "length [0, 0, 0, 0, 0, 0 :: real] = 6 \<and> length [4, 0, 2, 0, 0, 0 :: real] = 6 \<and>
   get_fk_solution [0, 0, 0, 0, 0, 0] ''ee'' =
     Inr (EE [[0, 0, 1, 4], [0, - 1, 0, 0], [1, 0, 0, 2], [0, 0, 0, 1]]) \<and>
   eps \<le> \<bar>[[0, 0, 1, 4], [0, - 1, 0, 0], [1, 0, 0, 2], [0, 0, 0, 1 :: real]] ! 0 ! 2\<bar> \<and>
   (\<exists>J cands. jacobian (fk_frames [0, 0, 0, 0, 0, 0]) = Inr J \<and>
      decompose_transformation [[0, 0, 1, 4], [0, - 1, 0, 0], [1, 0, 0, 2], [0, 0, 0, 1]] = Inr cands \<and>
      state_space [4, 0, 2, 0, 0, 0] [0, 0, 0, 0, 0, 0] 0 =
        Inr (map (\<lambda>row. dotp row (map (\<lambda>d. d * k_gain) (map2 (-) [4, 0, 2, 0, 0, 0] (hd cands)))) J))"
proof -
  have ee: "get_fk_solution [0, 0, 0, 0, 0, 0] ''ee'' =
     Inr (EE [[0, 0, 1, 4], [0, - 1, 0, 0], [1, 0, 0, 2], [0, 0, 0, 1]])"
    by (simp add: get_fk_ee fk_frames_zero)
  have reg: "eps \<le> \<bar>[[0, 0, 1, 4], [0, - 1, 0, 0], [1, 0, 0, 2], [0, 0, 0, 1 :: real]] ! 0 ! 2\<bar>"
    by (simp add: eps_def)
  have full: "get_fk_solution [0, 0, 0, 0, 0, 0] ''full'' = Inr (Full (fk_frames [0, 0, 0, 0, 0, 0]))"
    by (simp add: get_fk_full)
  from state_space_regular [of "[0, 0, 0, 0, 0, 0]" "[4, 0, 2, 0, 0, 0]", OF _ _ ee reg, of 0]
  show ?thesis using ee reg full by auto
qed

text \<open>
  C1 as stated fails: at \<open>q = (0, 0, 0, 0, \<pi>/2, 0)\<close> the end-effector frame has
  \<open>T[0,2] = 0\<close>, the first candidate is the 3-element translation, and subtracting it from
  a 6-element target pose is a ValueError.
\<close>

theorem state_space_degenerate_counterexample:
  "state_space [0, 0, 0, 0, 0, 0] [0, 0, 0, 0, pi / 2, 0] 0 = Inl ValueError"
proof -
  let ?q = "[0, 0, 0, 0, pi / 2, 0 :: real]"
  obtain J where J: "jacobian (fk_frames ?q) = Inr J"
    using jacobian_of_frames [OF fk_frames_length is44_fk_frames, of ?q] by blast
  have "decompose_transformation (last (fk_frames ?q)) = Inr [[2, 0, 0], [2, 0, 0]]"
    unfolding fk_frames_degenerate
    by (simp add: decompose_degenerate nrows_def ncols_def eps_def translation_of_def)
  then have "state_space [0, 0, 0, 0, 0, 0] ?q 0 =
      ebind (np_sub [0, 0, 0, 0, 0, 0] [2, 0, 0]) (\<lambda>d. mat_vec J (map (\<lambda>x. x * k_gain) d))"
    by (intro state_space_unfold [OF _ J]) simp_all
  then show ?thesis by (simp add: np_sub_def)
qed

section \<open>The round trip through the decomposition\<close>

text \<open>The entries of a rotation matrix: unit first row and third column, first row
  orthogonal to the others, and the third row the cross product of the first two.\<close>

lemma rotation_entries:
  fixes w00 w01 w02 w10 w11 w12 w20 w21 w22 :: real
  assumes o: "orthonormal3 [[w00, w01, w02], [w10, w11, w12], [w20, w21, w22]]"
    and d: "det3 [[w00, w01, w02], [w10, w11, w12], [w20, w21, w22]] = 1"
  shows "w00\<^sup>2 + w01\<^sup>2 + w02\<^sup>2 = 1"
    and "w02\<^sup>2 + w12\<^sup>2 + w22\<^sup>2 = 1"
    and "w00 * w10 + w01 * w11 + w02 * w12 = 0"
    and "w00 * w20 + w01 * w21 + w02 * w22 = 0"
    and "w22 = w00 * w11 - w01 * w10"
    and "w12 = w01 * w20 - w00 * w21"
proof -
  from o have rows: "w00 * w00 + w01 * w01 + w02 * w02 = 1" "w10 * w10 + w11 * w11 + w12 * w12 = 1"
    "w20 * w20 + w21 * w21 + w22 * w22 = 1" "w00 * w10 + w01 * w11 + w02 * w12 = 0"
    "w00 * w20 + w01 * w21 + w02 * w22 = 0"
    and col2: "w02 * w02 + w12 * w12 + w22 * w22 = 1"
    by (simp_all add: orthonormal3_def mat_mul_33 transp_mat_33 eye3)
  from d have det: "w00 * (w11 * w22 - w12 * w21) - w01 * (w10 * w22 - w12 * w20)
      + w02 * (w10 * w21 - w11 * w20) = 1"
    by (simp add: det3_33)
  show a: "w00\<^sup>2 + w01\<^sup>2 + w02\<^sup>2 = 1" and b: "w02\<^sup>2 + w12\<^sup>2 + w22\<^sup>2 = 1"
    using rows(1) col2 by (simp_all add: power2_eq_square)
  show "w00 * w10 + w01 * w11 + w02 * w12 = 0" "w00 * w20 + w01 * w21 + w02 * w22 = 0"
    by (fact rows(4) rows(5))+
  let ?nx = "w01 * w12 - w02 * w11" and ?ny = "w02 * w10 - w00 * w12"
    and ?nz = "w00 * w11 - w01 * w10"
  have "(w20 - ?nx)\<^sup>2 + (w21 - ?ny)\<^sup>2 + (w22 - ?nz)\<^sup>2 =
      (w20 * w20 + w21 * w21 + w22 * w22)
      - 2 * (w00 * (w11 * w22 - w12 * w21) - w01 * (w10 * w22 - w12 * w20)
             + w02 * (w10 * w21 - w11 * w20))
      + ((w00 * w00 + w01 * w01 + w02 * w02) * (w10 * w10 + w11 * w11 + w12 * w12)
         - (w00 * w10 + w01 * w11 + w02 * w12)\<^sup>2)"
    by (simp add: power2_eq_square algebra_simps)
  also have "\<dots> = 0"
    by (simp only: rows det) simp
  finally have sq: "(w20 - ?nx)\<^sup>2 + (w21 - ?ny)\<^sup>2 + (w22 - ?nz)\<^sup>2 = 0" .
  then have "(w22 - ?nz)\<^sup>2 = 0" "(w20 - ?nx)\<^sup>2 = 0" "(w21 - ?ny)\<^sup>2 = 0"
    by (simp_all add: sum_power2_eq_zero_iff add_nonneg_eq_0_iff)
  then have e: "w22 = ?nz" and r20: "w20 = ?nx" and r21: "w21 = ?ny" by simp_all
  show "w22 = w00 * w11 - w01 * w10" by (fact e)
  have "w01 * w20 - w00 * w21 = w12 * (w00 * w00 + w01 * w01) - w02 * (w00 * w10 + w01 * w11)"
    by (simp add: r20 r21 algebra_simps)
  also have "\<dots> = w12 * (w00 * w00 + w01 * w01) + w02 * (w02 * w12)"
  proof -
    have "w00 * w10 + w01 * w11 = - (w02 * w12)" using rows(4) by linarith
    then show ?thesis by (simp only:)
  qed
  also have "\<dots> = w12 * (w00 * w00 + w01 * w01 + w02 * w02)"
    by (simp add: algebra_simps)
  also have "\<dots> = w12" by (simp add: rows)
  finally show "w12 = w01 * w20 - w00 * w21" by simp
qed

lemma rebuild_rot_list:
  "rebuild_rot [a1, a2, a3] =
     [[cos a2 * cos a3, - (cos a2 * sin a3), sin a2],
      [cos a1 * sin a3 + sin a1 * sin a2 * cos a3, cos a1 * cos a3 - sin a1 * sin a2 * sin a3,
       - (sin a1 * cos a2)],
      [sin a1 * sin a3 - cos a1 * sin a2 * cos a3, sin a1 * cos a3 + cos a1 * sin a2 * sin a3,
       cos a1 * cos a2]]"
  by (simp add: rebuild_rot_def mat_mul_33 algebra_simps)

lemma rebuild_spec_angles:
  fixes w00 w01 w02 w10 w11 w12 w20 w21 w22 m2 :: real
  assumes a: "w00\<^sup>2 + w01\<^sup>2 + w02\<^sup>2 = 1"
    and b: "w02\<^sup>2 + w12\<^sup>2 + w22\<^sup>2 = 1"
    and c: "w00 * w10 + w01 * w11 + w02 * w12 = 0"
    and d: "w00 * w20 + w01 * w21 + w02 * w22 = 0"
    and e: "w22 = w00 * w11 - w01 * w10"
    and f: "w12 = w01 * w20 - w00 * w21"
    and nz: "w00\<^sup>2 + w01\<^sup>2 \<noteq> 0"
    and m2: "m2 = 1 \<or> m2 = - 1"
  shows "rebuild_rot (spec_angles
           [[w00, w01, w02, x], [w10, w11, w12, y], [w20, w21, w22, z], [b0, b1, b2, b3]] m2) =
         [[w00, w01, w02], [w10, w11, w12], [w20, w21, w22]]"
proof -
  define r where "r = sqrt (w00\<^sup>2 + w01\<^sup>2) * m2"
  define a3 where "a3 = arctan2 (- w01 * m2) (w00 * m2)"
  define a2 where "a2 = arctan2 w02 r"
  define a1 where "a1 = arctan2 (- w12 / r) (w22 / r)"
  have pos: "0 < w00\<^sup>2 + w01\<^sup>2"
    using nz by (metis sum_power2_gt_zero_iff sum_power2_eq_zero_iff)
  have m2sq: "m2 * m2 = 1" using m2 by auto
  have rsq: "r\<^sup>2 = w00\<^sup>2 + w01\<^sup>2"
    using pos by (simp add: r_def power_mult_distrib) (simp add: power2_eq_square m2sq)
  have rnz: "r \<noteq> 0" using rsq nz by auto
  have w0: "w00 \<noteq> 0 \<or> w01 \<noteq> 0" using nz by auto
  have root3: "sqrt ((w00 * m2)\<^sup>2 + (- w01 * m2)\<^sup>2) = sqrt (w00\<^sup>2 + w01\<^sup>2)"
    using m2 by auto
  have xy3: "w00 * m2 \<noteq> 0 \<or> - w01 * m2 \<noteq> 0" using w0 m2 by auto
  have c3: "cos a3 = w00 / r" and s3: "sin a3 = - w01 / r"
    unfolding a3_def cos_arctan2 [OF xy3] sin_arctan2 [OF xy3] root3 r_def
    using m2 by auto
  have q2: "(if cos a3 \<noteq> 0 then arctan2 w02 (w00 / cos a3) else arctan2 w02 (w01 / - sin a3)) = a2"
  proof (cases "w00 = 0")
    case True
    with w0 have "w01 \<noteq> 0" by simp
    then have "w01 / - sin a3 = r" using rnz by (simp add: s3)
    with True show ?thesis by (simp add: c3 a2_def)
  next
    case False
    then have "w00 / cos a3 = r" "cos a3 \<noteq> 0" using rnz by (simp_all add: c3)
    then show ?thesis by (simp add: a2_def)
  qed
  have "r\<^sup>2 + w02\<^sup>2 = 1" using a by (simp add: rsq)
  then have root2: "sqrt (r\<^sup>2 + w02\<^sup>2) = 1" by simp
  have c2: "cos a2 = r" and s2: "sin a2 = w02"
    unfolding a2_def using rnz by (simp_all add: cos_arctan2 sin_arctan2 root2)
  have sq1: "w12\<^sup>2 + w22\<^sup>2 = r\<^sup>2" using a b by (simp add: rsq)
  have "(w22 / r)\<^sup>2 + (- w12 / r)\<^sup>2 = (w12\<^sup>2 + w22\<^sup>2) / r\<^sup>2"
    by (simp add: power_divide add_divide_distrib)
  also have "\<dots> = 1" using rnz by (simp add: sq1)
  finally have one: "(w22 / r)\<^sup>2 + (- w12 / r)\<^sup>2 = 1" .
  then have root1: "sqrt ((w22 / r)\<^sup>2 + (- w12 / r)\<^sup>2) = 1" by simp
  have xy1: "w22 / r \<noteq> 0 \<or> - w12 / r \<noteq> 0"
  proof (rule ccontr)
    assume "\<not> ?thesis"
    then have "(w22 / r)\<^sup>2 + (- w12 / r)\<^sup>2 = 0" by simp
    with one show False by simp
  qed
  have c1: "cos a1 = w22 / r" and s1: "sin a1 = - w12 / r"
    unfolding a1_def cos_arctan2 [OF xy1] sin_arctan2 [OF xy1] root1 by simp_all
  have angles: "spec_angles
       [[w00, w01, w02, x], [w10, w11, w12, y], [w20, w21, w22, z], [b0, b1, b2, b3]] m2 =
       [a1, a2, a3]"
  proof -
    have a3n: "arctan2 (- (w01 * m2)) (w00 * m2) = a3" by (simp add: a3_def)
    have a1n: "arctan2 (- (w12 / r)) (w22 / r) = a1" by (simp add: a1_def)
    have q2a: "arctan2 w02 (w00 / cos a3) = a2" if "cos a3 \<noteq> 0"
      using q2 that by simp
    have q2b: "arctan2 w02 (- (w01 / sin a3)) = a2" if "cos a3 = 0"
      using q2 that by simp
    show ?thesis
      by (simp add: spec_angles_def Let_def a3n q2a q2b c2 a1n)
  qed
  have rr: "r * r = w00 * w00 + w01 * w01" using rsq by (simp add: power2_eq_square)
  have p10: "- (w22 * w01) - w12 * w02 * w00 = w10 * (w00 * w00 + w01 * w01)"
    using c e by algebra
  have p11: "w22 * w00 - w12 * w02 * w01 = w11 * (w00 * w00 + w01 * w01)"
    using c e by algebra
  have p20: "w12 * w01 - w22 * w02 * w00 = w20 * (w00 * w00 + w01 * w01)"
    using d f by algebra
  have p21: "- (w12 * w00) - w22 * w02 * w01 = w21 * (w00 * w00 + w01 * w01)"
    using d f by algebra
  have quot: "p / (r * r) = q" if "p = q * (w00 * w00 + w01 * w01)" for p q :: real
    using that rnz by (simp add: rr [symmetric])
  have e10: "cos a1 * sin a3 + sin a1 * sin a2 * cos a3 = w10"
  proof -
    have "cos a1 * sin a3 + sin a1 * sin a2 * cos a3 = (- (w22 * w01) - w12 * w02 * w00) / (r * r)"
      using rnz by (simp add: c1 s1 c3 s3 s2 field_simps)
    then show ?thesis by (simp add: quot [OF p10])
  qed
  have e11: "cos a1 * cos a3 - sin a1 * sin a2 * sin a3 = w11"
  proof -
    have "cos a1 * cos a3 - sin a1 * sin a2 * sin a3 = (w22 * w00 - w12 * w02 * w01) / (r * r)"
      using rnz by (simp add: c1 s1 c3 s3 s2 field_simps)
    then show ?thesis by (simp add: quot [OF p11])
  qed
  have e20: "sin a1 * sin a3 - cos a1 * sin a2 * cos a3 = w20"
  proof -
    have "sin a1 * sin a3 - cos a1 * sin a2 * cos a3 = (w12 * w01 - w22 * w02 * w00) / (r * r)"
      using rnz by (simp add: c1 s1 c3 s3 s2 field_simps)
    then show ?thesis by (simp add: quot [OF p20])
  qed
  have e21: "sin a1 * cos a3 + cos a1 * sin a2 * sin a3 = w21"
  proof -
    have "sin a1 * cos a3 + cos a1 * sin a2 * sin a3 = (- (w12 * w00) - w22 * w02 * w01) / (r * r)"
      using rnz by (simp add: c1 s1 c3 s3 s2 field_simps)
    then show ?thesis by (simp add: quot [OF p21])
  qed
  have e00: "cos a2 * cos a3 = w00" and e01: "- (cos a2 * sin a3) = w01"
    and e12: "- (sin a1 * cos a2) = w12" and e22: "cos a1 * cos a2 = w22"
    using rnz by (simp_all add: c1 s1 c2 c3 s3)
  show ?thesis
    unfolding angles rebuild_rot_list
    by (simp only: e00 e01 e10 e11 e12 e20 e21 e22) (simp only: s2)
qed

lemma close_to_refl_33:
  "0 \<le> tol \<Longrightarrow> close_to tol [[a00, a01, a02], [a10, a11, a12], [a20, a21, a22]]
     [[a00, a01, a02], [a10, a11, a12], [a20, a21, a22]]"
  by (simp add: close_to_def)

lemma rebuild_rot_regular:
  assumes T: "valid_homogeneous T" and lt: "\<bar>T ! 0 ! 2\<bar> < 1" and m2: "m2 = 1 \<or> m2 = - 1"
  shows "rebuild_rot (spec_angles T m2) = rot_block T"
proof -
  from T have "is44 T" by (simp add: valid_homogeneous_def)
  then obtain w00 w01 w02 x w10 w11 w12 y w20 w21 w22 z b0 b1 b2 b3 where
    W: "T = [[w00, w01, w02, x], [w10, w11, w12, y], [w20, w21, w22, z], [b0, b1, b2, b3]]"
    by (rule is44_form)
  from T have o: "orthonormal3 [[w00, w01, w02], [w10, w11, w12], [w20, w21, w22]]"
    and d: "det3 [[w00, w01, w02], [w10, w11, w12], [w20, w21, w22]] = 1"
    by (simp_all add: valid_homogeneous_def W rot_block_44)
  note facts = rotation_entries [OF o d]
  from lt have "w02\<^sup>2 < 1" by (simp add: W abs_square_less_1)
  with facts(1) have nz: "w00\<^sup>2 + w01\<^sup>2 \<noteq> 0" by linarith
  show ?thesis
    unfolding W rot_block_44
    by (rule rebuild_spec_angles [OF facts nz m2])
qed


lemma fk_ee_sixty:
  "get_fk_solution [0, 0, 0, 0, pi / 3, 0] ''ee'' =
     Inr (EE [[sqrt 3 / 2, 0, 1 / 2, 3], [0, - 1, 0, 0], [1 / 2, 0, - (sqrt 3 / 2), 2 - sqrt 3],
              [0, 0, 0, 1]])"
  by (simp add: get_fk_ee fk_frames_def Let_def dh_forms mat_mul_44 sin_60 cos_60)



end
